theory Spec2Isabelle
  imports Main
begin

section \<open>Values shared by the browser controller and the sync script\<close>

text \<open>
  JavaScript strings are modelled as \<open>string\<close>. The source's non-ASCII literals are
  written as their UTF-8 bytes. A thrown value is either an \<open>Error\<close> instance, of which
  only the message is ever read, or something else (\<open>error instanceof Error\<close> is false).
\<close>

datatype js_error = JsError string | Thrown

definition unknown_error :: string where
  \<comment> \<open>the fallback text of \<open>error instanceof Error ? error.message : ...\<close>\<close>
  "unknown_error = [CHR 0xE6, CHR 0x9C, CHR 0xAA, CHR 0xE7, CHR 0x9F, CHR 0xA5,
                    CHR 0xE9, CHR 0x94, CHR 0x99, CHR 0xE8, CHR 0xAF, CHR 0xAF]"

definition error_message :: "js_error \<Rightarrow> string" where
  "error_message e = (case e of JsError m \<Rightarrow> m | Thrown \<Rightarrow> unknown_error)"

text \<open>Template literals print a number in decimal.\<close>

fun decimal :: "nat \<Rightarrow> string" where
  "decimal n = (if n < 10 then [''0123456789'' ! n]
                else decimal (n div 10) @ [''0123456789'' ! (n mod 10)])"

declare decimal.simps [simp del]

text \<open>
  What one call of \<open>fetch\<close> settles to: the promise rejects, or a response arrives with
  its status, its status text and the outcome of reading the body (\<open>response.text()\<close>
  can reject too). \<open>response.ok\<close> is the status range 200..299.
  The network is a parameter: the answer to the n-th \<open>fetch\<close> call of a run, by URL.
\<close>

datatype fetch_result = Rejected js_error | Response nat string "js_error + string"

type_synonym network = "nat \<Rightarrow> string \<Rightarrow> fetch_result"

definition response_ok :: "nat \<Rightarrow> bool" where
  "response_ok st \<longleftrightarrow> 200 \<le> st \<and> st \<le> 299"

definition http_error :: "nat \<Rightarrow> string \<Rightarrow> js_error" where
  \<comment> \<open>\<open>new Error(`HTTP ${response.status}: ${response.statusText}`)\<close>\<close>
  "http_error st txt = JsError (''HTTP '' @ decimal st @ '': '' @ txt)"

definition response_text :: "fetch_result \<Rightarrow> js_error + string" where
  \<comment> \<open>\<open>if (!response.ok) throw ...; return response.text()\<close>, after \<open>await fetch(url)\<close>\<close>
  "response_text r =
     (case r of
        Rejected e \<Rightarrow> Inl e
      | Response st txt body \<Rightarrow> if \<not> response_ok st then Inl (http_error st txt) else body)"

definition NAV_DATA_URL :: string where
  "NAV_DATA_URL =
     ''https://gist.githubusercontent.com/zhmushan/6c8d631247912fe816530c48237757f0/raw/nav_data.json''"

text \<open>
  The manifest. \<open>NavData\<close> lists the own properties of the parsed object in the order
  \<open>Object.entries\<close> enumerates them. \<open>JSON.parse\<close> is a parameter. Where the code
  goes on to use the parsed value as a manifest (\<open>syncResources\<close>, \<open>init\<close>), the parser
  is taken at the declared type \<open>Record<string, NavItem>\<close>: it throws or yields a manifest.
\<close>

record NavItem =
  title :: string
  uri :: string

type_synonym NavData = "(string \<times> NavItem) list"

type_synonym json_parser = "string \<Rightarrow> js_error + NavData"

section \<open>The sync script\<close>

datatype level = Info | Success | Warn | Err

text \<open>
  One constructor for each message template passed to \<open>log\<close>, its arguments being the
  interpolated values.
\<close>

datatype message =
    SyncStart | SyncNavData | NavDataDone | SyncCount nat
  | PageDone string | PageFailed string string | SyncDone
  | ServerStarting | ServerStartFailed string | ServerHint | ServerExited nat
  | ServerClosing | RunFailed string

datatype out_line = Banner | Blank | Log level message

text \<open>
  The part of the disk the script touches: \<open>nav_data.json\<close> and the \<open>pages\<close> directory
  (\<open>None\<close>: absent) with its files by name. Permissions and device errors are not
  modelled, and a page's file name is taken as a plain name inside \<open>pages\<close>.
\<close>

record FS =
  navDataFile :: "string option"
  pagesDir :: "(string \<times> string) list option"

record Proc =
  fs :: FS
  out :: "out_line list"
  fetches :: "(string \<times> fetch_result) list"
  spawned :: "(string \<times> string list) list"
  exitCode :: "nat option"

text \<open>
  How an async function ends: it returns, it throws (the promise rejects), or its
  promise never settles. Each carries the process as the function left it.
\<close>

datatype completion = Normal Proc | Throw js_error Proc | Hang Proc

definition log :: "message \<Rightarrow> level \<Rightarrow> Proc \<Rightarrow> Proc" where
  "log m ty w = w\<lparr>out := out w @ [Log ty m]\<rparr>"

definition fetchText :: "network \<Rightarrow> string \<Rightarrow> Proc \<Rightarrow> (js_error + string) \<times> Proc" where
  "fetchText net url w =
     (let r = net (length (fetches w)) url
      in (response_text r, w\<lparr>fetches := fetches w @ [(url, r)]\<rparr>))"

fun put :: "string \<Rightarrow> string \<Rightarrow> (string \<times> string) list \<Rightarrow> (string \<times> string) list" where
  "put k v [] = [(k, v)]"
| "put k v ((k', v') # xs) = (if k = k' then (k, v) # xs else (k', v') # put k v xs)"

definition writeNavDataFile :: "string \<Rightarrow> Proc \<Rightarrow> Proc" where
  \<comment> \<open>\<open>writeFileSync(PATHS.navData, navDataText, 'utf-8')\<close>\<close>
  "writeNavDataFile text w = w\<lparr>fs := (fs w)\<lparr>navDataFile := Some text\<rparr>\<rparr>"

definition recreatePages :: "Proc \<Rightarrow> Proc" where
  \<comment> \<open>\<open>if (existsSync(PATHS.pages)) rmSync(PATHS.pages, {recursive: true});
      mkdirSync(PATHS.pages, {recursive: true})\<close>\<close>
  "recreatePages w =
     (let w1 = (if pagesDir (fs w) \<noteq> None then w\<lparr>fs := (fs w)\<lparr>pagesDir := None\<rparr>\<rparr> else w)
      in w1\<lparr>fs := (fs w1)\<lparr>pagesDir :=
               (case pagesDir (fs w1) of None \<Rightarrow> Some [] | Some files \<Rightarrow> Some files)\<rparr>\<rparr>)"

definition writePageFile :: "string \<Rightarrow> string \<Rightarrow> Proc \<Rightarrow> js_error + Proc" where
  \<comment> \<open>\<open>writeFileSync(join(PATHS.pages, filename), content, 'utf-8')\<close>: ENOENT without the directory\<close>
  "writePageFile filename content w =
     (case pagesDir (fs w) of
        None \<Rightarrow> Inl (JsError ''ENOENT: no such file or directory'')
      | Some files \<Rightarrow> Inr (w\<lparr>fs := (fs w)\<lparr>pagesDir := Some (put filename content files)\<rparr>\<rparr>))"

definition syncPage :: "network \<Rightarrow> string \<times> NavItem \<Rightarrow> Proc \<Rightarrow> Proc" where
  \<comment> \<open>the body of the \<open>for\<close> loop: \<open>try { fetch; write; log } catch { log }\<close>\<close>
  "syncPage net entry w =
     (let filename = fst entry @ ''.html'';
          (r, w1) = fetchText net (uri (snd entry)) w
      in case r of
           Inl e \<Rightarrow> log (PageFailed filename (error_message e)) Err w1
         | Inr content \<Rightarrow>
             (case writePageFile filename content w1 of
                Inl e \<Rightarrow> log (PageFailed filename (error_message e)) Err w1
              | Inr w2 \<Rightarrow> log (PageDone filename) Success w2))"

fun syncPages :: "network \<Rightarrow> NavData \<Rightarrow> Proc \<Rightarrow> Proc" where
  "syncPages net [] w = w"
| "syncPages net (entry # rest) w = syncPages net rest (syncPage net entry w)"

definition syncResources :: "network \<Rightarrow> json_parser \<Rightarrow> Proc \<Rightarrow> completion" where
  "syncResources net parse w =
     (let w1 = log SyncNavData Info (log SyncStart Info w);
          (r, w2) = fetchText net NAV_DATA_URL w1
      in case r of
           Inl e \<Rightarrow> Throw e w2
         | Inr navDataText \<Rightarrow>
             (let w3 = log NavDataDone Success (writeNavDataFile navDataText w2)
              in case parse navDataText of
                   Inl e \<Rightarrow> Throw e w3
                 | Inr navData \<Rightarrow>
                     (let w4 = recreatePages w3;
                          w5 = log (SyncCount (length navData)) Info w4;
                          w6 = syncPages net navData w5
                      in Normal (log SyncDone Success w6))))"

text \<open>
  The spawned server is a parameter: the \<open>error\<close> event fires, the \<open>close\<close> event fires
  with an exit code (or \<open>null\<close>), SIGINT arrives and the child is killed, or the server
  runs on and the promise of \<open>startServer\<close> never settles.
\<close>

datatype server_run = SpawnFailed string | Closed "nat option" | Interrupted | NeverCloses

definition startServer :: "server_run \<Rightarrow> Proc \<Rightarrow> completion" where
  "startServer srv w =
     (let w1 = (log ServerStarting Info w)\<lparr>spawned := spawned w @ [(''file_server'', [''.''])]\<rparr>
      in case srv of
           SpawnFailed m \<Rightarrow>
             Throw (JsError m) (log ServerHint Warn (log (ServerStartFailed m) Err w1))
         | Closed code \<Rightarrow>
             Normal (case code of
                       None \<Rightarrow> w1
                     | Some c \<Rightarrow> if c \<noteq> 0 then log (ServerExited c) Warn w1 else w1)
         | Interrupted \<Rightarrow> Normal (log ServerClosing Info w1)
         | NeverCloses \<Rightarrow> Hang w1)"


definition main :: "network \<Rightarrow> json_parser \<Rightarrow> server_run \<Rightarrow> string list \<Rightarrow> Proc \<Rightarrow> Proc" where
  \<comment> \<open>\<open>args\<close> is \<open>process.argv.slice(2)\<close>; the result has \<open>exitCode = None\<close> while the process lives\<close>
  "main net parse srv args w =
     (let syncOnly = ''--sync'' \<in> set args;
          serveOnly = ''--serve'' \<in> set args;
          w0 = w\<lparr>out := out w @ [Banner]\<rparr>;
          synced = (if \<not> serveOnly
                    then (case syncResources net parse w0 of
                            Normal w1 \<Rightarrow> Normal (w1\<lparr>out := out w1 @ [Blank]\<rparr>)
                          | Throw e w1 \<Rightarrow> Throw e w1
                          | Hang w1 \<Rightarrow> Hang w1)
                    else Normal w0);
          served = (case synced of
                      Normal w1 \<Rightarrow> if \<not> syncOnly then startServer srv w1 else Normal w1
                    | Throw e w1 \<Rightarrow> Throw e w1
                    | Hang w1 \<Rightarrow> Hang w1)
      in case served of
           Normal w2 \<Rightarrow> w2\<lparr>exitCode := Some 0\<rparr>
         | Throw e w2 \<Rightarrow> (log (RunFailed (error_message e)) Err w2)\<lparr>exitCode := Some 1\<rparr>
         | Hang w2 \<Rightarrow> w2)"

section \<open>The browser controller\<close>

subsection \<open>State, location and the elements the controller touches\<close>

record AppState =
  navData :: NavData
  activeId :: "string option"
  currentHtml :: string
  currentTitle :: string

text \<open>
  A URL in parsed form: the host name the manifest loader inspects, the path, the query
  as \<open>URLSearchParams\<close> holds it (name and value pairs in order) and the fragment.
  Parsing \<open>location.href\<close> and serialising the result again are taken to keep this form.
\<close>

record Url =
  hostname :: string
  pathname :: string
  searchParams :: "(string \<times> string) list"
  hash :: string

record NavItemEl =
  data_id :: string
  href :: string
  label :: string
  active :: bool
  aria_current :: bool

record Iframe =
  className :: string
  srcdoc :: "string option"

datatype console_entry =
    UsingLocalNav | LocalNavFailed | UsingRemoteNav | NavLoadFailed js_error
  | ItemNotFound string | ContentLoadFailed js_error | InitDone | InitFailed js_error

text \<open>
  The page: the global \<open>state\<close>, \<open>location\<close>, the entries pushed onto the session
  history (state id and URL), the children of \<open>#nav-container\<close> (\<open>None\<close>: no such
  element), the iframe inside \<open>#main-content\<close> (\<open>None\<close>: no such element,
  \<open>Some None\<close>: the element without an iframe), the console, every \<open>fetch\<close> made so
  far with what it settles to, the calls of \<open>loadContentById\<close> suspended at their
  \<open>await\<close> (the key and what the fetch will settle to), and whether the \<open>popstate\<close>
  listener is registered. The elements of class \<open>nav-item\<close> are taken to be the
  children of the container, and \<open>history.pushState\<close> is taken to succeed.
\<close>

record Page =
  state :: AppState
  location :: Url
  history :: "(string \<times> Url) list"
  navContainer :: "NavItemEl list option"
  mainContent :: "Iframe option option"
  console :: "console_entry list"
  requests :: "(string \<times> fetch_result) list"
  pending :: "(string \<times> fetch_result) list"
  popstateBound :: bool

definition nav_container_missing :: string where
  "nav_container_missing =
     [CHR 0xE5, CHR 0xAF, CHR 0xBC, CHR 0xE8, CHR 0x88, CHR 0xAA, CHR 0xE5, CHR 0xAE, CHR 0xB9,
      CHR 0xE5, CHR 0x99, CHR 0xA8, CHR 0xE5, CHR 0x85, CHR 0x83, CHR 0xE7, CHR 0xB4, CHR 0xA0,
      CHR 0xE4, CHR 0xB8, CHR 0x8D, CHR 0xE5, CHR 0xAD, CHR 0x98, CHR 0xE5, CHR 0x9C, CHR 0xA8]"

definition main_content_missing :: string where
  "main_content_missing =
     [CHR 0xE4, CHR 0xB8, CHR 0xBB, CHR 0xE5, CHR 0x86, CHR 0x85, CHR 0xE5, CHR 0xAE, CHR 0xB9,
      CHR 0xE5, CHR 0xAE, CHR 0xB9, CHR 0xE5, CHR 0x99, CHR 0xA8, CHR 0xE5, CHR 0x85, CHR 0x83,
      CHR 0xE7, CHR 0xB4, CHR 0xA0, CHR 0xE4, CHR 0xB8, CHR 0x8D, CHR 0xE5, CHR 0xAD, CHR 0x98,
      CHR 0xE5, CHR 0x9C, CHR 0xA8]"

definition getNavContainer :: "Page \<Rightarrow> js_error + NavItemEl list" where
  "getNavContainer w =
     (case navContainer w of None \<Rightarrow> Inl (JsError nav_container_missing) | Some els \<Rightarrow> Inr els)"

definition getMainContent :: "Page \<Rightarrow> js_error + Iframe option" where
  "getMainContent w =
     (case mainContent w of None \<Rightarrow> Inl (JsError main_content_missing) | Some el \<Rightarrow> Inr el)"

subsection \<open>Property lookup on the manifest\<close>

text \<open>
  \<open>navData[id]\<close> reads an own property of the manifest or, failing that, a property the
  object inherits from \<open>Object.prototype\<close>. The inherited values are functions (or, for
  \<open>__proto__\<close>, the prototype itself): all are truthy and none has a property \<open>uri\<close>.
  Own values are \<open>NavItem\<close> objects, hence truthy.
\<close>

datatype property = Own NavItem | Inherited | Absent

definition Object_prototype_names :: "string list" where
  "Object_prototype_names =
     [''constructor'', ''hasOwnProperty'', ''isPrototypeOf'', ''propertyIsEnumerable'',
      ''toLocaleString'', ''toString'', ''valueOf'', ''__proto__'',
      ''__defineGetter__'', ''__defineSetter__'', ''__lookupGetter__'', ''__lookupSetter__'']"

definition getProperty :: "NavData \<Rightarrow> string \<Rightarrow> property" where
  "getProperty nav k =
     (case map_of nav k of
        Some item \<Rightarrow> Own item
      | None \<Rightarrow> if k \<in> set Object_prototype_names then Inherited else Absent)"

definition uri_of :: "property \<Rightarrow> string option" where
  \<comment> \<open>\<open>item.uri\<close>, \<open>None\<close> standing for \<open>undefined\<close>\<close>
  "uri_of p = (case p of Own item \<Rightarrow> Some (uri item) | _ \<Rightarrow> None)"

definition truthy :: "string option \<Rightarrow> bool" where
  \<comment> \<open>a string, \<open>null\<close> or \<open>undefined\<close> in a boolean position: the empty string is falsy\<close>
  "truthy s = (case s of None \<Rightarrow> False | Some v \<Rightarrow> v \<noteq> [])"

subsection \<open>Manifest loader\<close>

definition fetch :: "network \<Rightarrow> string \<Rightarrow> Page \<Rightarrow> fetch_result \<times> Page" where
  "fetch net url w =
     (let r = net (length (requests w)) url
      in (r, w\<lparr>requests := requests w @ [(url, r)]\<rparr>))"

text \<open>
  The loader hands on what \<open>response.json()\<close> resolves to without looking at it, so
  it is defined for any type \<open>'v\<close> of parsed values; its parameter \<open>emptyObject\<close> is the value
  of the literal \<open>{}\<close> in that type.
\<close>

definition response_json :: "(string \<Rightarrow> js_error + 'v) \<Rightarrow> js_error + string \<Rightarrow> js_error + 'v" where
  \<comment> \<open>\<open>response.json()\<close>: read the body, then parse it\<close>
  "response_json parse body = (case body of Inl e \<Rightarrow> Inl e | Inr text \<Rightarrow> parse text)"

definition localNavData ::
  "network \<Rightarrow> (string \<Rightarrow> js_error + 'v) \<Rightarrow> Page \<Rightarrow> 'v option \<times> Page" where
  \<comment> \<open>the \<open>try\<close>/\<open>catch\<close> of the development branch; \<open>Some data\<close> when it returned \<open>data\<close>\<close>
  "localNavData net parse w =
     (let (r, w1) = fetch net ''./nav_data.json'' w
      in case r of
           Rejected e \<Rightarrow> (None, w1\<lparr>console := console w1 @ [LocalNavFailed]\<rparr>)
         | Response st txt body \<Rightarrow>
             if response_ok st
             then (case response_json parse body of
                     Inl e \<Rightarrow> (None, w1\<lparr>console := console w1 @ [LocalNavFailed]\<rparr>)
                   | Inr data \<Rightarrow> (Some data, w1\<lparr>console := console w1 @ [UsingLocalNav]\<rparr>))
             else (None, w1))"

definition fetch_json :: "(string \<Rightarrow> js_error + 'v) \<Rightarrow> fetch_result \<Rightarrow> js_error + 'v" where
  \<comment> \<open>\<open>if (!response.ok) throw ...; await response.json()\<close>, after \<open>await fetch(NAV_DATA_URL)\<close>\<close>
  "fetch_json parse r =
     (case r of
        Rejected e \<Rightarrow> Inl e
      | Response st txt body \<Rightarrow>
          if \<not> response_ok st then Inl (http_error st txt) else response_json parse body)"

definition remoteNavData ::
  "network \<Rightarrow> (string \<Rightarrow> js_error + 'v) \<Rightarrow> Page \<Rightarrow> (js_error + 'v) \<times> Page" where
  \<comment> \<open>the body of the second \<open>try\<close>, before its \<open>catch\<close>\<close>
  "remoteNavData net parse w =
     (let (r, w1) = fetch net NAV_DATA_URL w
      in case fetch_json parse r of
           Inl e \<Rightarrow> (Inl e, w1)
         | Inr data \<Rightarrow> (Inr data, w1\<lparr>console := console w1 @ [UsingRemoteNav]\<rparr>))"

definition loadNavData ::
  "network \<Rightarrow> (string \<Rightarrow> js_error + 'v) \<Rightarrow> 'v \<Rightarrow> Page \<Rightarrow> (js_error + 'v) \<times> Page" where
  "loadNavData net parse emptyObject w =
     (let isDev = (hostname (location w) = ''localhost'' \<or> hostname (location w) = ''127.0.0.1'');
          (localData, w1) = (if isDev then localNavData net parse w else (None, w))
      in case localData of
           Some data \<Rightarrow> (Inr data, w1)
         | None \<Rightarrow>
             (case remoteNavData net parse w1 of
                (Inr data, w2) \<Rightarrow> (Inr data, w2)
              | (Inl e, w2) \<Rightarrow> (Inr emptyObject, w2\<lparr>console := console w2 @ [NavLoadFailed e]\<rparr>)))"

text \<open>
  JSON values as \<open>JSON.parse\<close> can yield them (a number by its literal). Only an object
  is a mapping.
\<close>

datatype json =
    JNull | JBool bool | JNumber string | JString string | JArray "json list"
  | JObject "(string \<times> json) list"

definition is_mapping :: "json \<Rightarrow> bool" where
  "is_mapping v = (case v of JObject entries \<Rightarrow> True | _ \<Rightarrow> False)"

subsection \<open>URL parameter, rendering and highlighting\<close>

definition getIdFromUrl :: "Page \<Rightarrow> string option" where
  \<comment> \<open>\<open>URLSearchParams.get\<close>: the value of the first pair of that name, or \<open>null\<close>\<close>
  "getIdFromUrl w = map_of (searchParams (location w)) ''id''"

fun params_set :: "string \<Rightarrow> string \<Rightarrow> (string \<times> string) list \<Rightarrow> (string \<times> string) list" where
  \<comment> \<open>\<open>URLSearchParams.set\<close>: overwrite the first pair of that name and drop the others, or append\<close>
  "params_set k v [] = [(k, v)]"
| "params_set k v ((k', v') # ps) =
     (if k' = k then (k, v) # filter (\<lambda>p. fst p \<noteq> k) ps else (k', v') # params_set k v ps)"

definition updateUrlId :: "string \<Rightarrow> Page \<Rightarrow> Page" where
  "updateUrlId key w =
     (let url = (location w)\<lparr>searchParams := params_set ''id'' key (searchParams (location w))\<rparr>
      in w\<lparr>history := history w @ [(key, url)], location := url\<rparr>)"

definition createNavItemElement :: "string \<Rightarrow> NavItem \<Rightarrow> NavItemEl" where
  "createNavItemElement key item =
     \<lparr>data_id = key, href = ''?id='' @ key, label = title item, active = False, aria_current = False\<rparr>"

definition renderNav :: "NavData \<Rightarrow> Page \<Rightarrow> js_error + Page" where
  "renderNav nav w =
     (case getNavContainer w of
        Inl e \<Rightarrow> Inl e
      | Inr _ \<Rightarrow>
          Inr (w\<lparr>navContainer := Some (map (\<lambda>(key, item). createNavItemElement key item) nav)\<rparr>))"

definition updateNavActiveState :: "string \<Rightarrow> Page \<Rightarrow> Page" where
  "updateNavActiveState key w =
     w\<lparr>navContainer :=
         map_option (map (\<lambda>el. el\<lparr>active := (data_id el = key), aria_current := (data_id el = key)\<rparr>))
           (navContainer w)\<rparr>"

subsection \<open>Content loader\<close>

text \<open>
  \<open>new URL(uri, window.location.href).href\<close> is a parameter: the URL parser throws a
  \<open>TypeError\<close> on a string it cannot resolve against the base.
\<close>

type_synonym url_parser = "string \<Rightarrow> Url \<Rightarrow> js_error + string"

definition startsWith :: "string \<Rightarrow> string \<Rightarrow> bool" where
  "startsWith s p \<longleftrightarrow> take (length p) s = p"

definition resolveUri :: "url_parser \<Rightarrow> string option \<Rightarrow> Page \<Rightarrow> js_error + string" where
  \<comment> \<open>called on \<open>undefined\<close>, \<open>uri.startsWith\<close> throws a \<open>TypeError\<close>\<close>
  "resolveUri resolve u w =
     (case u of
        None \<Rightarrow> Inl (JsError ''Cannot read properties of undefined'')
      | Some s \<Rightarrow>
          if startsWith s ''http://'' \<or> startsWith s ''https://'' then Inr s
          else resolve s (location w))"

definition error_indicator :: string where
  "error_indicator =
     [CHR 0xE2, CHR 0x9A, CHR 0xA0, CHR 0xEF, CHR 0xB8, CHR 0x8F, CHR 0x20, CHR 0xE5, CHR 0x8A,
      CHR 0xA0, CHR 0xE8, CHR 0xBD, CHR 0xBD, CHR 0xE5, CHR 0xA4, CHR 0xB1, CHR 0xE8, CHR 0xB4,
      CHR 0xA5, CHR 0x3A, CHR 0x20]"

definition error_page :: "string \<Rightarrow> string" where
  \<comment> \<open>the template assigned to \<open>iframe.srcdoc\<close> in the \<open>catch\<close> block\<close>
  "error_page msg =
     ''<body style=\"font-family: sans-serif; padding: 2rem; color: #666;\">'' @ [CHR 0x0A]
     @ ''      <p>'' @ error_indicator @ msg @ ''</p>'' @ [CHR 0x0A]
     @ ''    </body>''"

definition str_includes :: "string \<Rightarrow> string \<Rightarrow> bool" where
  \<comment> \<open>\<open>hay.includes(needle)\<close>\<close>
  "str_includes hay needle \<longleftrightarrow>
     list_ex (\<lambda>i. take (length needle) (drop i hay) = needle) [0..<Suc (length hay)]"

definition setSrcdoc :: "string \<Rightarrow> Page \<Rightarrow> Page" where
  \<comment> \<open>\<open>iframe.srcdoc = ...\<close> on the iframe of \<open>#main-content\<close>, which the call found or created\<close>
  "setSrcdoc html w =
     w\<lparr>mainContent := map_option (map_option (\<lambda>f. f\<lparr>srcdoc := Some html\<rparr>)) (mainContent w)\<rparr>"

definition ensureIframe :: "Iframe option \<Rightarrow> Page \<Rightarrow> Page" where
  \<comment> \<open>\<open>mainContent.querySelector('iframe')\<close>, and the iframe created and appended if there is none\<close>
  "ensureIframe frame w =
     (case frame of
        None \<Rightarrow> w\<lparr>mainContent := Some (Some \<lparr>className = ''content-frame'', srcdoc = None\<rparr>)\<rparr>
      | Some _ \<Rightarrow> w)"

text \<open>
  \<open>loadContentById\<close> runs up to its \<open>await fetch(url)\<close>, and goes on when the fetch has
  settled. Up to the \<open>await\<close> it has thrown, returned, or is about to fetch a URL.
\<close>

datatype started = Threw js_error Page | Returned Page | Awaiting string Page

definition loadContentById_request :: "url_parser \<Rightarrow> string \<Rightarrow> Page \<Rightarrow> started" where
  "loadContentById_request resolve key w =
     (case getProperty (navData (state w)) key of
        Absent \<Rightarrow> Returned (w\<lparr>console := console w @ [ItemNotFound key]\<rparr>)
      | item \<Rightarrow>
          (case getMainContent w of
             Inl e \<Rightarrow> Threw e w
           | Inr frame \<Rightarrow>
               (case resolveUri resolve (uri_of item) w of
                  Inl e \<Rightarrow> Threw e w
                | Inr url \<Rightarrow>
                    Awaiting url (ensureIframe frame w))))"

definition loadContentById_settle :: "string \<Rightarrow> fetch_result \<Rightarrow> Page \<Rightarrow> Page" where
  "loadContentById_settle key r w =
     (let w1 = (case response_text r of
                  Inr html \<Rightarrow>
                    (setSrcdoc html w)\<lparr>state := (state w)\<lparr>currentHtml := html,
                                                           currentTitle := key @ ''.html''\<rparr>\<rparr>
                | Inl e \<Rightarrow>
                    (setSrcdoc (error_page (error_message e))
                       (w\<lparr>console := console w @ [ContentLoadFailed e]\<rparr>))
                      \<lparr>state := (state w)\<lparr>currentHtml := [], currentTitle := []\<rparr>\<rparr>);
          w2 = w1\<lparr>state := (state w1)\<lparr>activeId := Some key\<rparr>\<rparr>
      in updateUrlId key (updateNavActiveState key w2))"

definition loadContentById :: "network \<Rightarrow> url_parser \<Rightarrow> string \<Rightarrow> Page \<Rightarrow> js_error option \<times> Page" where
  \<comment> \<open>the whole call, nothing else running between request and response;
      \<open>Some e\<close>: the returned promise rejects with \<open>e\<close>\<close>
  "loadContentById net resolve key w =
     (case loadContentById_request resolve key w of
        Threw e w1 \<Rightarrow> (Some e, w1)
      | Returned w1 \<Rightarrow> (None, w1)
      | Awaiting url w1 \<Rightarrow>
          (let (r, w2) = fetch net url w1 in (None, loadContentById_settle key r w2)))"

definition loadContentById_call :: "network \<Rightarrow> url_parser \<Rightarrow> string \<Rightarrow> Page \<Rightarrow> Page" where
  \<comment> \<open>the statement \<open>loadContentById(id);\<close> of the callers: the promise is not awaited, a
      rejection is dropped, and the rest of the call waits for its fetch\<close>
  "loadContentById_call net resolve key w =
     (case loadContentById_request resolve key w of
        Threw e w1 \<Rightarrow> w1
      | Returned w1 \<Rightarrow> w1
      | Awaiting url w1 \<Rightarrow>
          (let (r, w2) = fetch net url w1 in w2\<lparr>pending := pending w2 @ [(key, r)]\<rparr>))"

subsection \<open>Event handlers and initialisation\<close>

definition handleNavClick :: "network \<Rightarrow> url_parser \<Rightarrow> string \<Rightarrow> Page \<Rightarrow> Page" where
  "handleNavClick net resolve key w =
     (if Some key = activeId (state w) then w else loadContentById_call net resolve key w)"

definition handlePopState :: "network \<Rightarrow> url_parser \<Rightarrow> string option \<Rightarrow> Page \<Rightarrow> Page" where
  \<comment> \<open>the \<open>popstate\<close> listener; the argument is \<open>e.state?.id\<close>\<close>
  "handlePopState net resolve stateId w =
     (let key = (if truthy stateId then stateId else getIdFromUrl w)
      in case key of
           None \<Rightarrow> w
         | Some k \<Rightarrow>
             if k \<noteq> [] \<and> getProperty (navData (state w)) k \<noteq> Absent
             then loadContentById_call net resolve k w else w)"

definition initialId :: "NavData \<Rightarrow> string option \<Rightarrow> string \<Rightarrow> string" where
  \<comment> \<open>\<open>(urlId && navData[urlId]) ? urlId : ids[0]\<close>, the last argument being \<open>ids[0]\<close>\<close>
  "initialId nav urlId first =
     (case urlId of
        None \<Rightarrow> first
      | Some u \<Rightarrow> if u \<noteq> [] \<and> getProperty nav u \<noteq> Absent then u else first)"

text \<open>
  \<open>init\<close> stores and renders what the loader returned: here the parsed value is used as
  a manifest, and the parser is taken at the declared type.
\<close>

definition init_finish :: "Page \<Rightarrow> Page" where
  \<comment> \<open>the end of \<open>init\<close>: the \<open>popstate\<close> listener is registered and completion is logged;
      the wiring of the download button and of the mobile menu touches neither the state
      nor the navigation and is left out\<close>
  "init_finish w = w\<lparr>popstateBound := True, console := console w @ [InitDone]\<rparr>"

definition init :: "network \<Rightarrow> json_parser \<Rightarrow> url_parser \<Rightarrow> Page \<Rightarrow> Page" where
  "init net parse resolve w =
     (case loadNavData net parse [] w of
        (Inl e, w1) \<Rightarrow> w1\<lparr>console := console w1 @ [InitFailed e]\<rparr>
      | (Inr nav, w1) \<Rightarrow>
          (let w2 = w1\<lparr>state := (state w1)\<lparr>navData := nav\<rparr>\<rparr>
           in case renderNav nav w2 of
                Inl e \<Rightarrow> w2\<lparr>console := console w2 @ [InitFailed e]\<rparr>
              | Inr w3 \<Rightarrow>
                  (case map fst nav of
                     [] \<Rightarrow> w3
                   | first # _ \<Rightarrow>
                       init_finish
                         (loadContentById_call net resolve
                            (initialId nav (getIdFromUrl w3) first) w3))))"

text \<open>
  What happens after \<open>init\<close>: a navigation element is activated (click, Enter or Space on
  an element \<open>renderNav\<close> made), the browser moves in the session history (the new
  location and the entry's state id), or the fetch of a suspended call settles.
\<close>

datatype event = NavClick string | PopState "string option" Url | FetchSettled nat

fun step :: "network \<Rightarrow> url_parser \<Rightarrow> Page \<Rightarrow> event \<Rightarrow> Page" where
  "step net resolve w (NavClick key) =
     (case navContainer w of
        None \<Rightarrow> w
      | Some els \<Rightarrow> if key \<in> data_id ` set els then handleNavClick net resolve key w else w)"
| "step net resolve w (PopState stateId url) =
     (let w1 = w\<lparr>location := url\<rparr>
      in if popstateBound w1 then handlePopState net resolve stateId w1 else w1)"
| "step net resolve w (FetchSettled k) =
     (if k < length (pending w)
      then loadContentById_settle (fst (pending w ! k)) (snd (pending w ! k))
             (w\<lparr>pending := take k (pending w) @ drop (Suc k) (pending w)\<rparr>)
      else w)"

definition run :: "network \<Rightarrow> url_parser \<Rightarrow> Page \<Rightarrow> event list \<Rightarrow> Page" where
  "run net resolve w evs = foldl (step net resolve) w evs"

definition initialState :: AppState where
  "initialState = \<lparr>navData = [], activeId = None, currentHtml = [], currentTitle = []\<rparr>"

definition consistent :: "Page \<Rightarrow> bool" where
  \<comment> \<open>the active id is \<open>null\<close> or a key of the manifest, and so is the key of each suspended call\<close>
  "consistent w \<longleftrightarrow>
     (activeId (state w) = None \<or> activeId (state w) \<in> Some ` fst ` set (navData (state w)))
     \<and> fst ` set (pending w) \<subseteq> fst ` set (navData (state w))"

section \<open>Sample runs\<close>

text \<open>
  The run of the sync script's scenario: an empty disk, the one-entry manifest
  \<open>{"p1": {"title":"T","uri":"https://x/p1.html"}}\<close>, a network that serves the
  manifest and answers 404 for the page, and a network that is down.
\<close>

definition proc0 :: Proc where
  "proc0 = \<lparr>fs = \<lparr>navDataFile = None, pagesDir = None\<rparr>, out = [], fetches = [],
            spawned = [], exitCode = None\<rparr>"

definition p1_entry :: "string \<times> NavItem" where
  "p1_entry = (''p1'', \<lparr>title = ''T'', uri = ''https://x/p1.html''\<rparr>)"

definition manifest_text :: string where
  "manifest_text = ''{\"p1\": {\"title\":\"T\",\"uri\":\"https://x/p1.html\"}}''"

definition manifest_parse :: json_parser where
  "manifest_parse t =
     (if t = manifest_text then Inr [p1_entry] else Inl (JsError ''Unexpected token''))"

definition net_page_down :: network where
  "net_page_down n url =
     (if url = NAV_DATA_URL then Response 200 ''OK'' (Inr manifest_text)
      else Response 404 ''Not Found'' (Inr []))"

definition net_down :: network where
  "net_down n url = Rejected (JsError ''fetch failed'')"

text \<open>
  Sample pages for the controller: a freshly loaded document with both containers and no
  iframe yet, a network that serves the manifest and the page, and a URL parser that
  rejects \<open>//\<close> (a URL without a host) and joins any other reference to the host.
\<close>

definition page0 :: Page where
  "page0 = \<lparr>state = initialState,
            location = \<lparr>hostname = ''zhmushan.github.io'', pathname = ''/'',
                         searchParams = [], hash = []\<rparr>,
            history = [], navContainer = Some [], mainContent = Some None, console = [],
            requests = [], pending = [], popstateBound = False\<rparr>"

definition net_up :: network where
  "net_up n url =
     (if url = NAV_DATA_URL then Response 200 ''OK'' (Inr manifest_text)
      else Response 200 ''OK'' (Inr ''<h1>T</h1>''))"

definition resolve_host :: url_parser where
  "resolve_host s base =
     (if s = ''//'' then Inl (JsError ''Invalid URL'')
      else Inr (''https://'' @ hostname base @ ''/'' @ s))"

definition page_of :: "NavData \<Rightarrow> Page" where
  \<comment> \<open>the sample document with a manifest stored and rendered\<close>
  "page_of nav =
     page0\<lparr>state := initialState\<lparr>navData := nav\<rparr>,
           navContainer := Some (map (\<lambda>(key, item). createNavItemElement key item) nav)\<rparr>"

definition page_with_id :: "string \<Rightarrow> Page" where
  \<comment> \<open>the sample document opened with the query \<open>?id=v\<close>\<close>
  "page_with_id v = page0\<lparr>location := (location page0)\<lparr>searchParams := [(''id'', v)]\<rparr>\<rparr>"

text \<open>
  A manifest entry whose \<open>uri\<close> is \<open>//\<close>, and a manifest with two entries, the second
  under the empty key.
\<close>

definition slashes_entry :: "string \<times> NavItem" where
  "slashes_entry = (''p'', \<lparr>title = ''T'', uri = ''//''\<rparr>)"

definition two_entries :: NavData where
  "two_entries = [(''a'', \<lparr>title = ''A'', uri = ''https://x/a.html''\<rparr>),
                  ([], \<lparr>title = ''B'', uri = ''https://x/b.html''\<rparr>)]"

definition two_text :: string where
  "two_text = ''{\"a\": {\"title\":\"A\",\"uri\":\"https://x/a.html\"}, \"\": {\"title\":\"B\",\"uri\":\"https://x/b.html\"}}''"

definition parse_two :: json_parser where
  "parse_two t = (if t = two_text then Inr two_entries else Inl (JsError ''Unexpected token''))"

definition net_two :: network where
  "net_two n url =
     (if url = NAV_DATA_URL then Response 200 ''OK'' (Inr two_text)
      else Response 200 ''OK'' (Inr ''<h1>T</h1>''))"

text \<open>
  A network that serves a given manifest text (and the same page for every other URL), a
  parser of JSON values that knows \<open>null\<close> and \<open>{}\<close>, and a manifest with the two
  keys \<open>a\<close> and \<open>b\<close>.
\<close>

definition net_serving :: "string \<Rightarrow> network" where
  "net_serving body n url =
     (if url = NAV_DATA_URL then Response 200 ''OK'' (Inr body)
      else Response 200 ''OK'' (Inr ''<h1>T</h1>''))"

definition parse_null :: "string \<Rightarrow> js_error + json" where
  "parse_null t =
     (if t = ''null'' then Inr JNull
      else if t = ''{}'' then Inr (JObject [])
      else Inl (JsError ''Unexpected token''))"

definition ab_entries :: NavData where
  "ab_entries = [(''a'', \<lparr>title = ''A'', uri = ''https://x/a.html''\<rparr>),
                 (''b'', \<lparr>title = ''B'', uri = ''https://x/b.html''\<rparr>)]"

definition ab_text :: string where
  "ab_text = ''{\"a\": {\"title\":\"A\",\"uri\":\"https://x/a.html\"}, \"b\": {\"title\":\"B\",\"uri\":\"https://x/b.html\"}}''"

definition slashes_text :: string where
  "slashes_text = ''{\"p\": {\"title\":\"T\",\"uri\":\"//\"}}''"

definition sample_parse :: json_parser where
  "sample_parse t =
     (if t = ab_text then Inr ab_entries
      else if t = slashes_text then Inr [slashes_entry]
      else Inl (JsError ''Unexpected token''))"

section \<open>Unfolding the definitions on sample inputs\<close>

lemmas controller_defs =
  loadContentById_def loadContentById_call_def loadContentById_request_def
  loadContentById_settle_def getProperty_def getMainContent_def getNavContainer_def
  resolveUri_def startsWith_def uri_of_def ensureIframe_def fetch_def updateUrlId_def
  updateNavActiveState_def setSrcdoc_def getIdFromUrl_def init_def init_finish_def
  initialId_def renderNav_def createNavItemElement_def loadNavData_def localNavData_def
  remoteNavData_def fetch_json_def response_json_def response_text_def response_ok_def
  handleNavClick_def Object_prototype_names_def

lemmas sample_defs =
  page0_def page_of_def page_with_id_def initialState_def p1_entry_def slashes_entry_def
  two_entries_def two_text_def parse_two_def net_two_def net_up_def net_down_def
  net_page_down_def manifest_parse_def manifest_text_def resolve_host_def NAV_DATA_URL_def

section \<open>Properties of the sync script\<close>

lemma syncPage_spawned: "spawned (syncPage net entry w) = spawned w"
  by (simp add: syncPage_def fetchText_def writePageFile_def log_def Let_def
           split: sum.splits option.splits)

lemma syncPages_spawned: "spawned (syncPages net es w) = spawned w"
  by (induction es arbitrary: w) (simp_all add: syncPage_spawned)

lemma syncResources_spawned:
  "syncResources net parse w = Normal w' \<Longrightarrow> spawned w' = spawned w"
  by (auto simp: syncResources_def fetchText_def writeNavDataFile_def recreatePages_def
                 log_def Let_def syncPages_spawned
           split: sum.splits)

text \<open>
  C9. Whenever the argument list contains \<open>--sync\<close>, the run spawns no static-file-server
  subprocess: the list of spawned commands is the one the run started with.
\<close>

theorem sync_flag_never_spawns:
  "''--sync'' \<in> set args \<Longrightarrow> spawned (main net parse srv args w) = spawned w"
proof -
  assume a: "''--sync'' \<in> set args"
  show ?thesis
  proof (cases "''--serve'' \<in> set args")
    case True
    with a show ?thesis by (simp add: main_def Let_def)
  next
    case False
    show ?thesis
    proof (cases "syncResources net parse (w\<lparr>out := out w @ [Banner]\<rparr>)")
      case (Normal w1)
      with a False syncResources_spawned [OF Normal] show ?thesis
        by (simp add: main_def Let_def)
    next
      case (Throw e w1)
      then have "spawned w1 = spawned w"
        by (auto simp: syncResources_def fetchText_def writeNavDataFile_def log_def Let_def
                 split: sum.splits)
      with a False Throw show ?thesis by (simp add: main_def Let_def log_def)
    next
      case (Hang w1)
      then show ?thesis
        by (auto simp: syncResources_def fetchText_def Let_def split: sum.splits)
    qed
  qed
qed

theorem sync_flag_never_spawns_witness:
  "''--sync'' \<in> set [''--sync'']
   \<and> spawned (main net_page_down manifest_parse NeverCloses [''--sync''] proc0) = []"
  using sync_flag_never_spawns [of "[''--sync'']" net_page_down manifest_parse NeverCloses proc0]
  by (simp add: proc0_def)









text \<open>
  C10. With both \<open>--sync\<close> and \<open>--serve\<close> among the arguments the run does nothing:
  \<open>syncResources\<close> is skipped because of \<open>--serve\<close>, \<open>startServer\<close> because of
  \<open>--sync\<close>. The disk, the fetches made and the processes spawned are as they were; the
  banner is printed and the process ends normally, with exit code 0.
\<close>

theorem both_flags_do_nothing:
  "''--sync'' \<in> set args \<Longrightarrow> ''--serve'' \<in> set args \<Longrightarrow>
   main net parse srv args w = w\<lparr>out := out w @ [Banner], exitCode := Some 0\<rparr>"
  by (simp add: main_def Let_def)

theorem both_flags_do_nothing_witness:
  "''--sync'' \<in> set [''--serve'', ''--sync''] \<and> ''--serve'' \<in> set [''--serve'', ''--sync''] \<and>
   main net_page_down manifest_parse (Closed None) [''--serve'', ''--sync''] proc0 =
     proc0\<lparr>out := [Banner], exitCode := Some 0\<rparr>"
  using both_flags_do_nothing [of "[''--serve'', ''--sync'']" net_page_down manifest_parse
                                  "Closed None" proc0]
  by (simp add: proc0_def)

text \<open>
  C7. When the sync runs (no \<open>--serve\<close>) and its manifest fetch fails, by rejection,
  by a status outside 200..299 or while the body is read, the whole run fails: the exit
  code is 1, the disk is untouched (the pages directory is not recreated, no page file is
  written), the manifest fetch is the only fetch made, no server is spawned, and the last
  line printed reports the failure.
\<close>

theorem manifest_failure_is_fatal:
  assumes "''--serve'' \<notin> set args"
    and "response_text (net (length (fetches w)) NAV_DATA_URL) = Inl e"
  shows "exitCode (main net parse srv args w) = Some 1
       \<and> fs (main net parse srv args w) = fs w
       \<and> spawned (main net parse srv args w) = spawned w
       \<and> fetches (main net parse srv args w) =
           fetches w @ [(NAV_DATA_URL, net (length (fetches w)) NAV_DATA_URL)]
       \<and> last (out (main net parse srv args w)) = Log Err (RunFailed (error_message e))"
  using assms
  by (simp add: main_def syncResources_def fetchText_def log_def Let_def)

theorem manifest_failure_is_fatal_witness:
  "''--serve'' \<notin> set [] \<and>
   response_text (net_down (length (fetches proc0)) NAV_DATA_URL) = Inl (JsError ''fetch failed'') \<and>
   exitCode (main net_down manifest_parse (Closed None) [] proc0) = Some 1 \<and>
   fs (main net_down manifest_parse (Closed None) [] proc0) = fs proc0 \<and>
   spawned (main net_down manifest_parse (Closed None) [] proc0) = []"
  using manifest_failure_is_fatal [of "[]" net_down proc0 "JsError ''fetch failed''"
                                     manifest_parse "Closed None"]
  by (simp add: net_down_def response_text_def proc0_def)





section \<open>Properties of the browser controller\<close>

subsection \<open>What a call of the content loader does\<close>

lemma request_Awaiting:
  "loadContentById_request resolve key w = Awaiting url w1 \<longleftrightarrow>
     (\<exists>item frame. map_of (navData (state w)) key = Some item \<and> mainContent w = Some frame
        \<and> resolveUri resolve (Some (uri item)) w = Inr url
        \<and> w1 = ensureIframe frame w)"
  by (auto simp: loadContentById_request_def getProperty_def getMainContent_def uri_of_def
        resolveUri_def split: option.splits property.splits sum.splits if_splits)

lemma request_Threw: "loadContentById_request resolve key w = Threw e w1 \<Longrightarrow> w1 = w"
  by (auto simp: loadContentById_request_def split: property.splits sum.splits)

lemma request_Returned:
  "loadContentById_request resolve key w = Returned w1 \<Longrightarrow>
     w1 = w\<lparr>console := console w @ [ItemNotFound key]\<rparr>"
  by (auto simp: loadContentById_request_def split: property.splits sum.splits)

lemma request_unknown_key:
  "key \<notin> fst ` set (navData (state w)) \<Longrightarrow>
     loadContentById_request resolve key w \<noteq> Awaiting url w1"
  by (auto simp: request_Awaiting dest: map_of_SomeD intro: rev_image_eqI)

lemma str_includes_middle: "str_includes (a @ n @ b) n"
proof -
  have "length a \<in> set [0..<Suc (length (a @ n @ b))]" by simp
  moreover have "take (length n) (drop (length a) (a @ n @ b)) = n" by simp
  ultimately show ?thesis unfolding str_includes_def list_ex_iff by blast
qed

lemma error_page_includes_indicator: "str_includes (error_page msg) error_indicator"
proof -
  have "error_page msg =
      (''<body style=\"font-family: sans-serif; padding: 2rem; color: #666;\">'' @ [CHR 0x0A]
        @ ''      <p>'') @ error_indicator @ (msg @ ''</p>'' @ [CHR 0x0A] @ ''    </body>'')"
    by (simp add: error_page_def)
  then show ?thesis by (simp only: str_includes_middle)
qed

lemma params_get_set: "map_of (params_set k v ps) k = Some v"
  by (induction ps) auto

lemma settle_fields:
  "requests (loadContentById_settle key r w) = requests w"
  "history (loadContentById_settle key r w) = history w @ [(key, location (loadContentById_settle key r w))]"
  "getIdFromUrl (loadContentById_settle key r w) = Some key"
  "navContainer (loadContentById_settle key r w) =
     map_option (map (\<lambda>el. el\<lparr>active := (data_id el = key), aria_current := (data_id el = key)\<rparr>))
       (navContainer w)"
  by (simp_all add: loadContentById_settle_def updateUrlId_def updateNavActiveState_def
        setSrcdoc_def getIdFromUrl_def params_get_set Let_def split: sum.splits)

lemma settle_failed:
  assumes "response_text r = Inl e"
  shows "currentHtml (state (loadContentById_settle key r w)) = []"
    and "currentTitle (state (loadContentById_settle key r w)) = []"
    and "mainContent (loadContentById_settle key r w) =
           map_option (map_option (\<lambda>f. f\<lparr>srcdoc := Some (error_page (error_message e))\<rparr>))
             (mainContent w)"
  using assms
  by (simp_all add: loadContentById_settle_def updateUrlId_def updateNavActiveState_def
        setSrcdoc_def Let_def)

lemma ensureIframe_fields:
  "mainContent w = Some frame \<Longrightarrow> \<exists>f. mainContent (ensureIframe frame w) = Some (Some f)"
  "requests (ensureIframe frame w) = requests w"
  "state (ensureIframe frame w) = state w"
  "navContainer (ensureIframe frame w) = navContainer w"
  "history (ensureIframe frame w) = history w"
  by (auto simp: ensureIframe_def split: option.splits)

lemma request_Awaiting_fields:
  assumes "loadContentById_request resolve key w = Awaiting url w1"
  shows "\<exists>f. mainContent w1 = Some (Some f)"
    and "state w1 = state w" and "navContainer w1 = navContainer w" and "history w1 = history w"
    and "requests w1 = requests w"
proof -
  from assms obtain item frame where mc: "mainContent w = Some frame"
    and w1: "w1 = ensureIframe frame w"
    unfolding request_Awaiting by blast
  show "\<exists>f. mainContent w1 = Some (Some f)" using mc w1 ensureIframe_fields(1) by blast
  show "state w1 = state w" "navContainer w1 = navContainer w" "history w1 = history w"
    "requests w1 = requests w"
    using w1 by (simp_all add: ensureIframe_fields)
qed

lemma loadContentById_Awaiting:
  assumes "loadContentById_request resolve key w = Awaiting url w1"
  shows "loadContentById net resolve key w =
           (None, loadContentById_settle key (net (length (requests w)) url)
                    (w1\<lparr>requests := requests w @ [(url, net (length (requests w)) url)]\<rparr>))"
  using assms request_Awaiting_fields(5) [OF assms]
  by (simp add: loadContentById_def fetch_def Let_def)

subsection \<open>The invariant of the active id\<close>

lemma call_state_pending:
  "state (loadContentById_call net resolve key w) = state w
   \<and> (pending (loadContentById_call net resolve key w) = pending w
      \<or> (key \<in> fst ` set (navData (state w))
          \<and> (\<exists>r. pending (loadContentById_call net resolve key w) = pending w @ [(key, r)])))"
proof (cases "loadContentById_request resolve key w")
  case (Threw e w1)
  with request_Threw [OF Threw] show ?thesis by (simp add: loadContentById_call_def)
next
  case (Returned w1)
  with request_Returned [OF Returned] show ?thesis by (simp add: loadContentById_call_def)
next
  case (Awaiting url w1)
  obtain item frame where m: "map_of (navData (state w)) key = Some item"
    and w1: "w1 = ensureIframe frame w"
    using Awaiting unfolding request_Awaiting by blast
  from m have k: "key \<in> fst ` set (navData (state w))"
    by (auto dest: map_of_SomeD intro: rev_image_eqI)
  from w1 have "state w1 = state w" "pending w1 = pending w"
    by (auto simp: ensureIframe_def split: option.splits)
  with Awaiting k show ?thesis by (simp add: loadContentById_call_def fetch_def Let_def)
qed

lemma settle_state:
  "navData (state (loadContentById_settle key r w)) = navData (state w)"
  "activeId (state (loadContentById_settle key r w)) = Some key"
  "pending (loadContentById_settle key r w) = pending w"
  by (simp_all add: loadContentById_settle_def updateUrlId_def updateNavActiveState_def
        setSrcdoc_def Let_def split: sum.splits)

lemma call_pending_keys:
  "fst ` set (pending (loadContentById_call net resolve key w))
     \<subseteq> fst ` set (pending w) \<union> fst ` set (navData (state w))"
proof -
  from call_state_pending [of net resolve key w]
  consider "pending (loadContentById_call net resolve key w) = pending w"
    | r where "key \<in> fst ` set (navData (state w))"
        "pending (loadContentById_call net resolve key w) = pending w @ [(key, r)]"
    by blast
  then show ?thesis
  proof cases
    case 1
    then show ?thesis by simp
  next
    case 2
    then show ?thesis by simp
  qed
qed

lemma consistent_call:
  assumes "consistent w"
  shows "consistent (loadContentById_call net resolve key w)"
proof -
  have s: "state (loadContentById_call net resolve key w) = state w"
    using call_state_pending [of net resolve key w] by blast
  from assms have "fst ` set (pending w) \<subseteq> fst ` set (navData (state w))"
    by (simp add: consistent_def)
  with call_pending_keys [of net resolve key w]
  have "fst ` set (pending (loadContentById_call net resolve key w))
          \<subseteq> fst ` set (navData (state w))" by blast
  with assms s show ?thesis by (simp add: consistent_def)
qed

lemma consistent_settle:
  "consistent w \<Longrightarrow> key \<in> fst ` set (navData (state w)) \<Longrightarrow>
     consistent (loadContentById_settle key r w)"
  by (simp add: consistent_def settle_state)

lemma consistent_step: "consistent w \<Longrightarrow> consistent (step net resolve w ev)"
proof (cases ev)
  case (NavClick key)
  assume "consistent w"
  then show ?thesis using NavClick
    by (simp add: handleNavClick_def consistent_call split: option.splits)
next
  case (PopState stateId url)
  assume c: "consistent w"
  then have "consistent (w\<lparr>location := url\<rparr>)" by (simp add: consistent_def)
  then show ?thesis using PopState
    by (simp add: handlePopState_def Let_def consistent_call split: option.splits)
next
  case (FetchSettled k)
  assume c: "consistent w"
  show ?thesis
  proof (cases "k < length (pending w)")
    case False
    with c FetchSettled show ?thesis by simp
  next
    case True
    let ?w = "w\<lparr>pending := take k (pending w) @ drop (Suc k) (pending w)\<rparr>"
    from True have "fst (pending w ! k) \<in> fst ` set (pending w)" by simp
    with c have key: "fst (pending w ! k) \<in> fst ` set (navData (state ?w))"
      by (auto simp: consistent_def)
    have "set (take k (pending w) @ drop (Suc k) (pending w)) \<subseteq> set (pending w)"
      using set_take_subset set_drop_subset by fastforce
    then have "fst ` set (pending ?w) \<subseteq> fst ` set (pending w)"
      by (simp add: image_mono del: set_append)
    moreover from c have "fst ` set (pending w) \<subseteq> fst ` set (navData (state w))"
      by (simp add: consistent_def)
    ultimately have "fst ` set (pending ?w) \<subseteq> fst ` set (navData (state ?w))"
      by simp
    with c have "consistent ?w" by (simp add: consistent_def)
    from consistent_settle [OF this key] True FetchSettled show ?thesis by simp
  qed
qed

lemma consistent_run: "consistent w \<Longrightarrow> consistent (run net resolve w evs)"
  unfolding run_def by (induction evs arbitrary: w) (simp_all add: consistent_step)

lemma loadNavData_state:
  "state (snd (loadNavData net parse emptyObject w)) = state w
   \<and> pending (snd (loadNavData net parse emptyObject w)) = pending w"
  by (auto simp: loadNavData_def localNavData_def remoteNavData_def fetch_def Let_def
        split: prod.splits option.splits sum.splits fetch_result.splits if_splits)

lemma consistent_init:
  assumes "state w = initialState" and "pending w = []"
  shows "consistent (init net parse resolve w)"
proof -
  obtain r w1 where l: "loadNavData net parse [] w = (r, w1)"
    by (cases "loadNavData net parse [] w")
  with loadNavData_state [of net parse "[]" w] assms
  have s1: "state w1 = initialState" "pending w1 = []" by simp_all
  show ?thesis
  proof (cases r)
    case (Inl e)
    with l s1 show ?thesis by (simp add: init_def consistent_def initialState_def)
  next
    case (Inr nav)
    let ?w2 = "w1\<lparr>state := (state w1)\<lparr>navData := nav\<rparr>\<rparr>"
    have c2: "consistent ?w2" using s1 by (simp add: consistent_def initialState_def)
    show ?thesis
    proof (cases "renderNav nav ?w2")
      case (Inl e)
      with l Inr c2 show ?thesis by (simp add: init_def Let_def consistent_def)
    next
      case r3: (Inr w3)
      then have "state w3 = state ?w2" "pending w3 = pending ?w2"
        by (auto simp: renderNav_def split: sum.splits)
      with c2 have c3: "consistent w3" by (simp add: consistent_def)
      have "consistent (init_finish w4)" if "consistent w4" for w4
        using that by (simp add: init_finish_def consistent_def)
      with c3 l Inr r3 show ?thesis
        by (simp add: init_def Let_def consistent_call split: list.splits)
    qed
  qed
qed

text \<open>
  C1. After \<open>init\<close>, whatever navigation clicks, \<open>popstate\<close> events and fetch
  completions follow, in whatever order, \<open>activeId\<close> is \<open>null\<close> or a key of
  \<open>navData\<close>. In particular the selection routine, called directly or through the click
  handler with a key that is not in \<open>navData\<close>, leaves \<open>activeId\<close> as it was.
\<close>

theorem activeId_is_null_or_a_key:
  "(state w0 = initialState \<and> pending w0 = [] \<longrightarrow>
      (activeId (state (run net resolve (init net parse resolve w0) evs)) = None
       \<or> activeId (state (run net resolve (init net parse resolve w0) evs))
           \<in> Some ` fst ` set (navData (state (run net resolve (init net parse resolve w0) evs)))))
   \<and> (key \<notin> fst ` set (navData (state w)) \<longrightarrow>
        activeId (state (snd (loadContentById net resolve key w))) = activeId (state w)
      \<and> activeId (state (handleNavClick net resolve key w)) = activeId (state w))"
proof (intro conjI impI)
  assume "state w0 = initialState \<and> pending w0 = []"
  then have "consistent (init net parse resolve w0)" by (simp add: consistent_init)
  then have "consistent (run net resolve (init net parse resolve w0) evs)"
    by (rule consistent_run)
  then show "activeId (state (run net resolve (init net parse resolve w0) evs)) = None
       \<or> activeId (state (run net resolve (init net parse resolve w0) evs))
           \<in> Some ` fst ` set (navData (state (run net resolve (init net parse resolve w0) evs)))"
    by (simp add: consistent_def)
next
  assume k: "key \<notin> fst ` set (navData (state w))"
  show "activeId (state (snd (loadContentById net resolve key w))) = activeId (state w)"
  proof (cases "loadContentById_request resolve key w")
    case (Threw e w1)
    with request_Threw [OF Threw] show ?thesis by (simp add: loadContentById_def)
  next
    case (Returned w1)
    with request_Returned [OF Returned] show ?thesis by (simp add: loadContentById_def)
  next
    case (Awaiting url w1)
    with request_unknown_key [OF k] show ?thesis by blast
  qed
  show "activeId (state (handleNavClick net resolve key w)) = activeId (state w)"
    using call_state_pending [of net resolve key w] by (simp add: handleNavClick_def)
qed

theorem activeId_is_null_or_a_key_witness:
  "state page0 = initialState \<and> pending page0 = []
   \<and> (activeId (state (run net_up resolve_host (init net_up manifest_parse resolve_host page0)
                          [FetchSettled 0, NavClick ''p1'', PopState None (location page0)])) = None
       \<or> activeId (state (run net_up resolve_host (init net_up manifest_parse resolve_host page0)
                          [FetchSettled 0, NavClick ''p1'', PopState None (location page0)]))
           \<in> Some ` fst ` set (navData (state (run net_up resolve_host
                   (init net_up manifest_parse resolve_host page0)
                   [FetchSettled 0, NavClick ''p1'', PopState None (location page0)]))))
   \<and> ''zz'' \<notin> fst ` set (navData (state (page_of [p1_entry])))
   \<and> activeId (state (snd (loadContentById net_up resolve_host ''zz'' (page_of [p1_entry]))))
        = activeId (state (page_of [p1_entry]))
   \<and> activeId (state (handleNavClick net_up resolve_host ''zz'' (page_of [p1_entry])))
        = activeId (state (page_of [p1_entry]))"
  using activeId_is_null_or_a_key [of page0 net_up resolve_host manifest_parse
          "[FetchSettled 0, NavClick ''p1'', PopState None (location page0)]" "''zz''"
          "page_of [p1_entry]"]
  by (simp add: sample_defs)

subsection \<open>Selection\<close>

text \<open>
  C2. For a key of \<open>navData\<close>, when the selection routine makes its page fetch and
  the fetch fails (the promise rejects, the status is not in 200..299, or the body cannot
  be read), then afterwards \<open>currentHtml\<close> and \<open>currentTitle\<close> are empty and the
  iframe's \<open>srcdoc\<close> is the inline error page, which contains the error indicator, in
  place of page content.
\<close>

theorem failed_fetch_shows_error:
  assumes "key \<in> fst ` set (navData (state w))"
    and "requests (snd (loadContentById net resolve key w)) = requests w @ [(url, r)]"
    and "response_text r = Inl e"
  shows "currentHtml (state (snd (loadContentById net resolve key w))) = []
       \<and> currentTitle (state (snd (loadContentById net resolve key w))) = []
       \<and> (\<exists>f. mainContent (snd (loadContentById net resolve key w)) = Some (Some f)
              \<and> srcdoc f = Some (error_page (error_message e)))
       \<and> str_includes (error_page (error_message e)) error_indicator"
proof (cases "loadContentById_request resolve key w")
  case (Threw e' w1)
  with request_Threw [OF Threw] assms(2) show ?thesis by (simp add: loadContentById_def)
next
  case (Returned w1)
  with request_Returned [OF Returned] assms(2) show ?thesis by (simp add: loadContentById_def)
next
  case (Awaiting url' w1)
  note l = loadContentById_Awaiting [OF Awaiting, of net]
  from request_Awaiting_fields(1) [OF Awaiting]
  obtain f where f: "mainContent w1 = Some (Some f)" by blast
  from assms(2) have r: "r = net (length (requests w)) url'"
    by (auto simp: l settle_fields(1))
  with assms(3) have fail: "response_text (net (length (requests w)) url') = Inl e" by simp
  show ?thesis
    using f by (simp add: l settle_failed [OF fail] error_page_includes_indicator)
qed

theorem failed_fetch_shows_error_witness:
  "''p1'' \<in> fst ` set (navData (state (page_of [p1_entry])))
   \<and> requests (snd (loadContentById net_page_down resolve_host ''p1'' (page_of [p1_entry])))
        = requests (page_of [p1_entry]) @ [(''https://x/p1.html'', Response 404 ''Not Found'' (Inr []))]
   \<and> response_text (Response 404 ''Not Found'' (Inr [])) = Inl (JsError ''HTTP 404: Not Found'')
   \<and> currentHtml (state (snd (loadContentById net_page_down resolve_host ''p1'' (page_of [p1_entry])))) = []
   \<and> currentTitle (state (snd (loadContentById net_page_down resolve_host ''p1'' (page_of [p1_entry])))) = []
   \<and> (\<exists>f. mainContent (snd (loadContentById net_page_down resolve_host ''p1'' (page_of [p1_entry])))
              = Some (Some f)
          \<and> srcdoc f = Some (error_page ''HTTP 404: Not Found''))
   \<and> str_includes (error_page ''HTTP 404: Not Found'') error_indicator"
proof -
  have h1: "''p1'' \<in> fst ` set (navData (state (page_of [p1_entry])))"
    by (simp add: sample_defs)
  have h2: "requests (snd (loadContentById net_page_down resolve_host ''p1'' (page_of [p1_entry])))
        = requests (page_of [p1_entry]) @ [(''https://x/p1.html'', Response 404 ''Not Found'' (Inr []))]"
    by (simp add: controller_defs sample_defs Let_def)
  have h3: "response_text (Response 404 ''Not Found'' (Inr [])) = Inl (JsError ''HTTP 404: Not Found'')"
    by (simp add: response_text_def response_ok_def http_error_def decimal.simps)
  from failed_fetch_shows_error [OF h1 h2 h3] h1 h2 h3 show ?thesis
    by (simp add: error_message_def)
qed

text \<open>
  C3. The click handler called with the key that is already active changes nothing: no
  fetch is made, no history entry is pushed, the state and the document stay as they
  are. The same holds of the click event delivered to the page.
\<close>

theorem reselecting_active_key_is_noop:
  "activeId (state w) = Some key \<Longrightarrow>
     handleNavClick net resolve key w = w \<and> step net resolve w (NavClick key) = w"
  by (simp add: handleNavClick_def split: option.splits)

theorem reselecting_active_key_is_noop_witness:
  "activeId (state ((page_of [p1_entry])\<lparr>state := initialState\<lparr>navData := [p1_entry], activeId := Some ''p1''\<rparr>\<rparr>)) = Some ''p1''
   \<and> handleNavClick net_up resolve_host ''p1''
        ((page_of [p1_entry])\<lparr>state := initialState\<lparr>navData := [p1_entry], activeId := Some ''p1''\<rparr>\<rparr>)
       = (page_of [p1_entry])\<lparr>state := initialState\<lparr>navData := [p1_entry], activeId := Some ''p1''\<rparr>\<rparr>
   \<and> step net_up resolve_host
        ((page_of [p1_entry])\<lparr>state := initialState\<lparr>navData := [p1_entry], activeId := Some ''p1''\<rparr>\<rparr>)
        (NavClick ''p1'')
       = (page_of [p1_entry])\<lparr>state := initialState\<lparr>navData := [p1_entry], activeId := Some ''p1''\<rparr>\<rparr>"
  using reselecting_active_key_is_noop [of
          "(page_of [p1_entry])\<lparr>state := initialState\<lparr>navData := [p1_entry], activeId := Some ''p1''\<rparr>\<rparr>"
          "''p1''" net_up resolve_host]
  by simp

text \<open>
  The selection routine resolves the entry's \<open>uri\<close> before its \<open>try\<close> block. For the
  entry whose \<open>uri\<close> is \<open>//\<close>, a reference without a host that the URL parser rejects,
  the key is in \<open>navData\<close> and both containers are present, yet the call rejects and
  leaves the page as it was: \<open>activeId\<close> stays \<open>null\<close> and no history entry is pushed.
\<close>

theorem unresolvable_uri_counterexample:
  "''p'' \<in> fst ` set (navData (state (page_of [slashes_entry])))
   \<and> mainContent (page_of [slashes_entry]) \<noteq> None
   \<and> navContainer (page_of [slashes_entry]) \<noteq> None
   \<and> loadContentById net_up resolve_host ''p'' (page_of [slashes_entry])
        = (Some (JsError ''Invalid URL''), page_of [slashes_entry])
   \<and> activeId (state (snd (loadContentById net_up resolve_host ''p'' (page_of [slashes_entry]))))
        \<noteq> Some ''p''
   \<and> history (snd (loadContentById net_up resolve_host ''p'' (page_of [slashes_entry]))) = []
   \<and> getIdFromUrl (snd (loadContentById net_up resolve_host ''p'' (page_of [slashes_entry])))
        \<noteq> Some ''p''"
  by (simp add: controller_defs sample_defs)

text \<open>
  C4 (amended). For a key of \<open>navData\<close> whose \<open>uri\<close> starts with \<open>http://\<close> or
  \<open>https://\<close> or resolves against the page URL, and with \<open>#main-content\<close> present, the
  selection routine completes and, whatever its page fetch settles to, sets
  \<open>activeId\<close> to the key, marks exactly the navigation elements of that key as active,
  and pushes a history entry whose state and whose URL parameter \<open>id\<close> are the key.
\<close>

theorem selection_sets_active_key:
  assumes "map_of (navData (state w)) key = Some item"
    and "mainContent w \<noteq> None"
    and "resolveUri resolve (Some (uri item)) w = Inr url"
  shows "fst (loadContentById net resolve key w) = None
       \<and> activeId (state (snd (loadContentById net resolve key w))) = Some key
       \<and> navContainer (snd (loadContentById net resolve key w)) =
           map_option (map (\<lambda>el. el\<lparr>active := (data_id el = key),
                                       aria_current := (data_id el = key)\<rparr>)) (navContainer w)
       \<and> history (snd (loadContentById net resolve key w)) =
           history w @ [(key, location (snd (loadContentById net resolve key w)))]
       \<and> getIdFromUrl (snd (loadContentById net resolve key w)) = Some key"
proof -
  from assms(2) obtain frame where "mainContent w = Some frame" by blast
  with assms(1,3) have "loadContentById_request resolve key w = Awaiting url (ensureIframe frame w)"
    unfolding request_Awaiting by blast
  note l = loadContentById_Awaiting [OF this, of net]
  show ?thesis
    by (simp add: l settle_state settle_fields ensureIframe_fields)
qed

theorem selection_sets_active_key_witness:
  "map_of (navData (state (page_of [p1_entry]))) ''p1'' = Some (snd p1_entry)
   \<and> mainContent (page_of [p1_entry]) \<noteq> None
   \<and> resolveUri resolve_host (Some (uri (snd p1_entry))) (page_of [p1_entry]) = Inr ''https://x/p1.html''
   \<and> fst (loadContentById net_page_down resolve_host ''p1'' (page_of [p1_entry])) = None
   \<and> activeId (state (snd (loadContentById net_page_down resolve_host ''p1'' (page_of [p1_entry])))) = Some ''p1''
   \<and> getIdFromUrl (snd (loadContentById net_page_down resolve_host ''p1'' (page_of [p1_entry]))) = Some ''p1''"
proof -
  have h1: "map_of (navData (state (page_of [p1_entry]))) ''p1'' = Some (snd p1_entry)"
    by (simp add: sample_defs)
  have h2: "mainContent (page_of [p1_entry]) \<noteq> None" by (simp add: sample_defs)
  have h3: "resolveUri resolve_host (Some (uri (snd p1_entry))) (page_of [p1_entry]) = Inr ''https://x/p1.html''"
    by (simp add: resolveUri_def startsWith_def sample_defs)
  from selection_sets_active_key [OF h1 h2 h3, of net_page_down] h1 h2 h3 show ?thesis by simp
qed

subsection \<open>Manifest loader\<close>

lemma localNavData_requests:
  "\<exists>r. requests (snd (localNavData net parse w)) = requests w @ [(''./nav_data.json'', r)]"
  by (auto simp: localNavData_def fetch_def Let_def split: fetch_result.splits sum.splits)

lemma localNavData_Some:
  "fst (localNavData net parse w) = Some v \<Longrightarrow>
     \<exists>st txt body. requests (snd (localNavData net parse w))
                       = requests w @ [(''./nav_data.json'', Response st txt (Inr body))]
                   \<and> response_ok st \<and> parse body = Inr v"
  by (auto simp: localNavData_def fetch_def response_json_def Let_def
           split: fetch_result.splits sum.splits if_splits)

lemma remote_catch:
  "\<exists>r. requests (snd (remoteNavData net parse w)) = requests w @ [(NAV_DATA_URL, r)]
       \<and> fst (remoteNavData net parse w) = fetch_json parse r"
  by (auto simp: remoteNavData_def fetch_def Let_def split: sum.splits)

lemma fetch_json_Inr:
  "fetch_json parse r = Inr v \<Longrightarrow>
     \<exists>st txt body. r = Response st txt (Inr body) \<and> response_ok st \<and> parse body = Inr v"
  by (auto simp: fetch_json_def response_json_def split: fetch_result.splits sum.splits if_splits)

lemma local_is_not_remote: "''./nav_data.json'' \<noteq> NAV_DATA_URL"
  by (simp add: NAV_DATA_URL_def)

text \<open>
  The loader returns what \<open>response.json()\<close> resolved to as it is. When the remote
  URL answers 200 with the body \<open>null\<close>, the loader returns \<open>null\<close>, which is not a
  mapping.
\<close>

theorem null_manifest_counterexample:
  "fst (loadNavData (net_serving ''null'') parse_null (JObject []) page0) = Inr JNull
   \<and> \<not> is_mapping JNull"
  by (simp add: loadNavData_def remoteNavData_def fetch_def fetch_json_def response_json_def
        response_ok_def net_serving_def parse_null_def is_mapping_def page0_def Let_def)

text \<open>
  C5 (amended). The manifest loader never throws: whatever the local and the remote
  fetch settle to, it returns a value, which is the empty mapping or the value that the
  body of a response it fetched, with a status in 200..299, parsed to (a mapping only
  when that body is a JSON object). When it makes the remote fetch and that fetch fails
  (the promise rejects, the status is not in 200..299, or the body cannot be read or
  parsed), it returns the empty mapping, and the last console entry reports the failure.
\<close>

theorem loadNavData_never_throws:
  "(\<exists>v. fst (loadNavData net parse emptyObject w) = Inr v
        \<and> (v = emptyObject
            \<or> (\<exists>url st txt body.
                  (url, Response st txt (Inr body))
                    \<in> set (drop (length (requests w))
                              (requests (snd (loadNavData net parse emptyObject w))))
                  \<and> response_ok st \<and> parse body = Inr v)))
   \<and> ((NAV_DATA_URL, r)
          \<in> set (drop (length (requests w)) (requests (snd (loadNavData net parse emptyObject w))))
        \<and> fetch_json parse r = Inl e
      \<longrightarrow> fst (loadNavData net parse emptyObject w) = Inr emptyObject
        \<and> last (console (snd (loadNavData net parse emptyObject w))) = NavLoadFailed e)"
proof -
  define isDev where "isDev \<longleftrightarrow>
     hostname (location w) = ''localhost'' \<or> hostname (location w) = ''127.0.0.1''"
  define l where "l = (if isDev then localNavData net parse w else (None, w))"
  obtain localData w1 where lw: "l = (localData, w1)" by (cases l)
  have lnd: "loadNavData net parse emptyObject w =
      (case localData of
         Some data \<Rightarrow> (Inr data, w1)
       | None \<Rightarrow>
           (case remoteNavData net parse w1 of
              (Inr data, w2) \<Rightarrow> (Inr data, w2)
            | (Inl e, w2) \<Rightarrow> (Inr emptyObject, w2\<lparr>console := console w2 @ [NavLoadFailed e]\<rparr>)))"
    using lw unfolding loadNavData_def l_def isDev_def by (simp add: Let_def)
  have req1: "requests w1 = requests w \<or> (\<exists>r'. requests w1 = requests w @ [(''./nav_data.json'', r')])"
    using lw localNavData_requests [of net parse w] unfolding l_def
    by (auto split: if_splits)
  show ?thesis
  proof (cases localData)
    case (Some data)
    with lnd have res: "loadNavData net parse emptyObject w = (Inr data, w1)" by simp
    from Some lw have dev: "localNavData net parse w = (Some data, w1)"
      unfolding l_def by (auto split: if_splits)
    from localNavData_Some [of net parse w data] dev
    obtain st msg body where
      b: "requests w1 = requests w @ [(''./nav_data.json'', Response st msg (Inr body))]"
         "response_ok st" "parse body = Inr data"
      by auto
    have "(NAV_DATA_URL, r) \<notin> set (drop (length (requests w)) (requests w1))"
      using b(1) local_is_not_remote by auto
    moreover have "(''./nav_data.json'', Response st msg (Inr body))
                     \<in> set (drop (length (requests w)) (requests w1))"
      using b(1) by simp
    ultimately show ?thesis using res b(2,3) by auto
  next
    case None
    obtain x w2 where rem: "remoteNavData net parse w1 = (x, w2)"
      by (cases "remoteNavData net parse w1")
    from remote_catch [of net parse w1] rem obtain r2
      where r2: "requests w2 = requests w1 @ [(NAV_DATA_URL, r2)]" and x: "x = fetch_json parse r2"
      by auto
    have new: "set (drop (length (requests w)) (requests w2)) \<subseteq>
                 {(''./nav_data.json'', r') | r'. True} \<union> {(NAV_DATA_URL, r2)}"
      using req1 r2 by auto
    have mem: "(NAV_DATA_URL, r2) \<in> set (drop (length (requests w)) (requests w2))"
      using req1 r2 by auto
    show ?thesis
    proof (cases x)
      case (Inr data)
      with lnd None rem have res: "loadNavData net parse emptyObject w = (Inr data, w2)" by simp
      from Inr x fetch_json_Inr [of parse r2 data]
      obtain st msg body where b: "r2 = Response st msg (Inr body)" "response_ok st"
          "parse body = Inr data" by auto
      have "\<not> ((NAV_DATA_URL, r) \<in> set (drop (length (requests w)) (requests w2))
              \<and> fetch_json parse r = Inl e)"
      proof
        assume a: "(NAV_DATA_URL, r) \<in> set (drop (length (requests w)) (requests w2))
              \<and> fetch_json parse r = Inl e"
        with new local_is_not_remote have "r = r2" by auto
        with a x Inr show False by simp
      qed
      with res mem b show ?thesis by auto
    next
      case (Inl e2)
      with lnd None rem
      have res: "loadNavData net parse emptyObject w
                   = (Inr emptyObject, w2\<lparr>console := console w2 @ [NavLoadFailed e2]\<rparr>)"
        by simp
      have "e = e2" if a: "(NAV_DATA_URL, r) \<in> set (drop (length (requests w)) (requests w2))"
        and b: "fetch_json parse r = Inl e"
      proof -
        from a new local_is_not_remote have "r = r2" by auto
        with b x Inl show ?thesis by simp
      qed
      with res show ?thesis by auto
    qed
  qed
qed

theorem loadNavData_never_throws_witness:
  "(NAV_DATA_URL, Rejected (JsError ''fetch failed''))
      \<in> set (drop (length (requests page0))
                (requests (snd (loadNavData net_down parse_null (JObject []) page0))))
   \<and> fetch_json parse_null (Rejected (JsError ''fetch failed'')) = Inl (JsError ''fetch failed'')
   \<and> fst (loadNavData net_down parse_null (JObject []) page0) = Inr (JObject [])
   \<and> is_mapping (JObject [])
   \<and> last (console (snd (loadNavData net_down parse_null (JObject []) page0)))
       = NavLoadFailed (JsError ''fetch failed'')"
proof -
  have h1: "(NAV_DATA_URL, Rejected (JsError ''fetch failed''))
      \<in> set (drop (length (requests page0))
                (requests (snd (loadNavData net_down parse_null (JObject []) page0))))"
    by (simp add: loadNavData_def remoteNavData_def fetch_def fetch_json_def net_down_def
          page0_def Let_def)
  have h2: "fetch_json parse_null (Rejected (JsError ''fetch failed'')) = Inl (JsError ''fetch failed'')"
    by (simp add: fetch_json_def)
  have h3: "is_mapping (JObject [])" by (simp add: is_mapping_def)
  from loadNavData_never_throws [of net_down parse_null "JObject []" page0
         "Rejected (JsError ''fetch failed'')" "JsError ''fetch failed''"] h1 h2 h3
  show ?thesis by blast
qed

subsection \<open>The URL parameter\<close>

lemma loadNavData_fields:
  "location (snd (loadNavData net parse emptyObject w)) = location w"
  "mainContent (snd (loadNavData net parse emptyObject w)) = mainContent w"
  "navContainer (snd (loadNavData net parse emptyObject w)) = navContainer w"
  by (auto simp: loadNavData_def localNavData_def remoteNavData_def fetch_def Let_def
        split: prod.splits option.splits sum.splits fetch_result.splits if_splits)

lemma renderNav_Inr:
  assumes "renderNav nav w = Inr w3"
  shows "location w3 = location w" and "mainContent w3 = mainContent w"
    and "state w3 = state w" and "pending w3 = pending w" and "requests w3 = requests w"
  using assms by (auto simp: renderNav_def split: sum.splits)

lemma renderNav_present:
  "navContainer w \<noteq> None \<Longrightarrow> \<exists>w3. renderNav nav w = Inr w3"
  by (auto simp: renderNav_def getNavContainer_def)

lemma resolveUri_location:
  "location w' = location w \<Longrightarrow> resolveUri resolve u w' = resolveUri resolve u w"
  by (simp add: resolveUri_def split: option.splits)

lemma getProperty_key:
  "k \<in> fst ` set nav \<Longrightarrow> getProperty nav k \<noteq> Absent"
  by (cases "map_of nav k") (auto simp: getProperty_def map_of_eq_None_iff)

lemma getProperty_unknown:
  "k \<notin> fst ` set nav \<Longrightarrow> k \<notin> set Object_prototype_names \<Longrightarrow> getProperty nav k = Absent"
  by (simp add: getProperty_def map_of_eq_None_iff [THEN iffD2])

lemma call_known_key:
  assumes "map_of (navData (state w)) K = Some item"
    and "mainContent w \<noteq> None"
    and "resolveUri resolve (Some (uri item)) w = Inr url"
  shows "pending (loadContentById_call net resolve K w)
           = pending w @ [(K, net (length (requests w)) url)]"
    and "requests (loadContentById_call net resolve K w)
           = requests w @ [(url, net (length (requests w)) url)]"
proof -
  from assms(2) obtain frame where "mainContent w = Some frame" by blast
  with assms(1,3) have a: "loadContentById_request resolve K w = Awaiting url (ensureIframe frame w)"
    unfolding request_Awaiting by blast
  show "pending (loadContentById_call net resolve K w)
           = pending w @ [(K, net (length (requests w)) url)]"
    and "requests (loadContentById_call net resolve K w)
           = requests w @ [(url, net (length (requests w)) url)]"
    by (simp_all add: loadContentById_call_def a fetch_def Let_def ensureIframe_def
          split: option.splits)
qed

lemma init_selects:
  assumes l: "loadNavData net parse [] p = (Inr nav, p1)"
    and nav: "map fst nav = first # ks"
    and nc: "navContainer p \<noteq> None"
    and mc: "mainContent p \<noteq> None"
    and K: "initialId nav (getIdFromUrl p) first = K"
    and item: "map_of nav K = Some item"
    and res: "resolveUri resolve (Some (uri item)) p = Inr url"
  shows "pending (init net parse resolve p) = pending p @ [(K, net (length (requests p1)) url)]"
    and "requests (init net parse resolve p) = requests p1 @ [(url, net (length (requests p1)) url)]"
proof -
  let ?p2 = "p1\<lparr>state := (state p1)\<lparr>navData := nav\<rparr>\<rparr>"
  from l have p1: "p1 = snd (loadNavData net parse [] p)" by simp
  have f1: "location p1 = location p" "mainContent p1 = mainContent p"
    "navContainer p1 = navContainer p" "pending p1 = pending p"
    using p1 loadNavData_fields [of net parse "[]" p] loadNavData_state [of net parse "[]" p]
    by simp_all
  from nc f1 obtain p3 where r: "renderNav nav ?p2 = Inr p3"
    using renderNav_present [of ?p2 nav] by auto
  note f3 = renderNav_Inr [OF r]
  have u: "getIdFromUrl p3 = getIdFromUrl p"
    using f3(1) f1(1) by (simp add: getIdFromUrl_def)
  have i: "init net parse resolve p = init_finish (loadContentById_call net resolve K p3)"
    using l r nav K u by (simp add: init_def Let_def split: list.splits)
  have m3: "map_of (navData (state p3)) K = Some item" using f3(3) item by simp
  have c3: "mainContent p3 \<noteq> None" using f3(2) f1(2) mc by simp
  have r3: "resolveUri resolve (Some (uri item)) p3 = Inr url"
    using res resolveUri_location [of p3 p resolve] f3(1) f1(1) by simp
  note c = call_known_key [OF m3 c3 r3, of net]
  show "pending (init net parse resolve p) = pending p @ [(K, net (length (requests p1)) url)]"
    using c(1) f3(4,5) f1(4) by (simp add: i init_finish_def)
  show "requests (init net parse resolve p) = requests p1 @ [(url, net (length (requests p1)) url)]"
    using c(2) f3(5) by (simp add: i init_finish_def)
qed

lemma initialId_cases:
  assumes "(getIdFromUrl p = Some K \<and> K \<noteq> [] \<and> K \<in> fst ` set nav)
         \<or> (K = first \<and> (getIdFromUrl p = None \<or> getIdFromUrl p = Some []
               \<or> (\<exists>k. getIdFromUrl p = Some k \<and> k \<notin> fst ` set nav
                       \<and> k \<notin> set Object_prototype_names)))"
  shows "initialId nav (getIdFromUrl p) first = K"
proof -
  from assms consider
      (key) "getIdFromUrl p = Some K" "K \<noteq> []" "K \<in> fst ` set nav"
    | (none) "K = first" "getIdFromUrl p = None"
    | (blank) "K = first" "getIdFromUrl p = Some []"
    | (unknown) k where "K = first" "getIdFromUrl p = Some k" "k \<notin> fst ` set nav"
        "k \<notin> set Object_prototype_names"
    by (elim disjE conjE exE) auto
  then show ?thesis
  proof cases
    case key
    with getProperty_key [OF key(3)] show ?thesis by (simp add: initialId_def)
  next
    case none
    then show ?thesis by (simp add: initialId_def)
  next
    case blank
    then show ?thesis by (simp add: initialId_def)
  next
    case unknown
    with getProperty_unknown [OF unknown(3,4)] show ?thesis by (simp add: initialId_def)
  qed
qed

text \<open>
  At initialisation the parameter is tested for truthiness and looked up with
  \<open>navData[urlId]\<close>, and the selection routine is called without being awaited. Five
  documents whose parameter \<open>id\<close> is present:
  with \<open>?id=\<close> and a manifest whose second key is the empty string, the parameter is a
  key, yet the first key \<open>a\<close> is selected;
  with \<open>?id=constructor\<close>, which is not a key, the lookup finds the inherited property,
  \<open>init\<close> passes \<open>constructor\<close> to the selection routine, and no page is requested:
  the first key is not selected either;
  with \<open>?id=p\<close> and the entry \<open>p\<close> whose \<open>uri\<close> is \<open>//\<close>, with \<open>?id=b\<close> and no
  \<open>#main-content\<close>, and with \<open>?id=b\<close> and no \<open>#nav-container\<close>, the parameter is a
  key, yet no page is requested and no call is left to settle.
\<close>

theorem init_preselection_counterexample:
  "getIdFromUrl (page_with_id []) = Some []
   \<and> fst (loadNavData net_two parse_two [] (page_with_id [])) = Inr two_entries
   \<and> [] \<in> fst ` set two_entries
   \<and> map fst (pending (init net_two parse_two resolve_host (page_with_id []))) = [''a'']
   \<and> getIdFromUrl (page_with_id ''constructor'') = Some ''constructor''
   \<and> fst (loadNavData net_two parse_two [] (page_with_id ''constructor'')) = Inr two_entries
   \<and> ''constructor'' \<notin> fst ` set two_entries
   \<and> pending (init net_two parse_two resolve_host (page_with_id ''constructor'')) = []
   \<and> map fst (requests (init net_two parse_two resolve_host (page_with_id ''constructor'')))
        = [NAV_DATA_URL]
   \<and> getIdFromUrl (page_with_id ''p'') = Some ''p''
   \<and> fst (loadNavData (net_serving slashes_text) sample_parse [] (page_with_id ''p''))
        = Inr [slashes_entry]
   \<and> ''p'' \<in> fst ` set [slashes_entry]
   \<and> pending (init (net_serving slashes_text) sample_parse resolve_host (page_with_id ''p'')) = []
   \<and> map fst (requests (init (net_serving slashes_text) sample_parse resolve_host (page_with_id ''p'')))
        = [NAV_DATA_URL]
   \<and> getIdFromUrl ((page_with_id ''b'')\<lparr>mainContent := None\<rparr>) = Some ''b''
   \<and> fst (loadNavData (net_serving ab_text) sample_parse [] ((page_with_id ''b'')\<lparr>mainContent := None\<rparr>))
        = Inr ab_entries
   \<and> ''b'' \<in> fst ` set ab_entries
   \<and> pending (init (net_serving ab_text) sample_parse resolve_host
                 ((page_with_id ''b'')\<lparr>mainContent := None\<rparr>)) = []
   \<and> map fst (requests (init (net_serving ab_text) sample_parse resolve_host
                 ((page_with_id ''b'')\<lparr>mainContent := None\<rparr>))) = [NAV_DATA_URL]
   \<and> getIdFromUrl ((page_with_id ''b'')\<lparr>navContainer := None\<rparr>) = Some ''b''
   \<and> pending (init (net_serving ab_text) sample_parse resolve_host
                 ((page_with_id ''b'')\<lparr>navContainer := None\<rparr>)) = []
   \<and> map fst (requests (init (net_serving ab_text) sample_parse resolve_host
                 ((page_with_id ''b'')\<lparr>navContainer := None\<rparr>))) = [NAV_DATA_URL]"
  by (simp add: controller_defs sample_defs net_serving_def sample_parse_def ab_text_def
        ab_entries_def slashes_text_def Let_def)

text \<open>
  C6 (amended). After every selection of a key of \<open>navData\<close> that completes, the
  URL's parameter \<open>id\<close> is that key. At initialisation, let the chosen key be the
  parameter \<open>id\<close> when it is present, not empty and a key of the loaded manifest, and
  the manifest's first key when the parameter is absent or empty, or is neither a key of
  the manifest nor the name of a property every object inherits. With both containers
  present and the chosen entry's \<open>uri\<close> resolvable, \<open>init\<close> requests the page of the
  chosen entry and of no other, and leaves one call to settle; once its fetch has
  settled, the chosen key is the active id and the URL's parameter \<open>id\<close>.
\<close>

theorem url_id_round_trip:
  "(key \<in> fst ` set (navData (state w)) \<and> fst (loadContentById net resolve key w) = None
      \<longrightarrow> getIdFromUrl (snd (loadContentById net resolve key w)) = Some key)
   \<and> (loadNavData net parse [] p = (Inr nav, p1) \<and> map fst nav = first # ks
        \<and> navContainer p \<noteq> None \<and> mainContent p \<noteq> None
        \<and> ((getIdFromUrl p = Some K \<and> K \<noteq> [] \<and> K \<in> fst ` set nav)
            \<or> (K = first \<and> (getIdFromUrl p = None \<or> getIdFromUrl p = Some []
                  \<or> (\<exists>k. getIdFromUrl p = Some k \<and> k \<notin> fst ` set nav
                          \<and> k \<notin> set Object_prototype_names))))
        \<and> map_of nav K = Some item \<and> resolveUri resolve (Some (uri item)) p = Inr url
      \<longrightarrow> map fst (pending (init net parse resolve p)) = map fst (pending p) @ [K]
        \<and> map fst (requests (init net parse resolve p)) = map fst (requests p1) @ [url]
        \<and> activeId (state (step net resolve (init net parse resolve p)
                              (FetchSettled (length (pending p))))) = Some K
        \<and> getIdFromUrl (step net resolve (init net parse resolve p)
                           (FetchSettled (length (pending p)))) = Some K
        \<and> pending (step net resolve (init net parse resolve p)
                      (FetchSettled (length (pending p)))) = pending p)"
proof (intro conjI impI)
  assume a: "key \<in> fst ` set (navData (state w)) \<and> fst (loadContentById net resolve key w) = None"
  show "getIdFromUrl (snd (loadContentById net resolve key w)) = Some key"
  proof (cases "loadContentById_request resolve key w")
    case (Threw e w1)
    with a show ?thesis by (simp add: loadContentById_def)
  next
    case (Returned w1)
    with a getProperty_key [of key "navData (state w)"] show ?thesis
      by (auto simp: loadContentById_request_def split: property.splits sum.splits)
  next
    case (Awaiting url w1)
    then show ?thesis by (simp add: loadContentById_Awaiting settle_fields)
  qed
next
  assume h: "loadNavData net parse [] p = (Inr nav, p1) \<and> map fst nav = first # ks
        \<and> navContainer p \<noteq> None \<and> mainContent p \<noteq> None
        \<and> ((getIdFromUrl p = Some K \<and> K \<noteq> [] \<and> K \<in> fst ` set nav)
            \<or> (K = first \<and> (getIdFromUrl p = None \<or> getIdFromUrl p = Some []
                  \<or> (\<exists>k. getIdFromUrl p = Some k \<and> k \<notin> fst ` set nav
                          \<and> k \<notin> set Object_prototype_names))))
        \<and> map_of nav K = Some item \<and> resolveUri resolve (Some (uri item)) p = Inr url"
  then have K: "initialId nav (getIdFromUrl p) first = K"
    using initialId_cases [of p K nav first] by blast
  from h have l: "loadNavData net parse [] p = (Inr nav, p1)" and nav: "map fst nav = first # ks"
    and nc: "navContainer p \<noteq> None" and mc: "mainContent p \<noteq> None"
    and item: "map_of nav K = Some item"
    and res: "resolveUri resolve (Some (uri item)) p = Inr url" by blast+
  let ?w = "init net parse resolve p"
  let ?r = "net (length (requests p1)) url"
  have pw: "pending ?w = pending p @ [(K, ?r)]"
    by (rule init_selects(1) [OF l nav nc mc K item res])
  have rw: "requests ?w = requests p1 @ [(url, ?r)]"
    by (rule init_selects(2) [OF l nav nc mc K item res])
  have st: "step net resolve ?w (FetchSettled (length (pending p)))
              = loadContentById_settle K ?r (?w\<lparr>pending := pending p\<rparr>)"
    by (simp add: pw)
  show "map fst (pending ?w) = map fst (pending p) @ [K]" by (simp add: pw)
  show "map fst (requests ?w) = map fst (requests p1) @ [url]" by (simp add: rw)
  show "activeId (state (step net resolve ?w (FetchSettled (length (pending p))))) = Some K"
    by (simp only: st settle_state)
  show "getIdFromUrl (step net resolve ?w (FetchSettled (length (pending p)))) = Some K"
    by (simp only: st settle_fields)
  show "pending (step net resolve ?w (FetchSettled (length (pending p)))) = pending p"
    by (simp add: st settle_state del: step.simps)
qed

theorem url_id_round_trip_witness:
  "''p1'' \<in> fst ` set (navData (state (page_of [p1_entry])))
   \<and> fst (loadContentById net_up resolve_host ''p1'' (page_of [p1_entry])) = None
   \<and> getIdFromUrl (snd (loadContentById net_up resolve_host ''p1'' (page_of [p1_entry]))) = Some ''p1''
   \<and> fst (loadNavData (net_serving ab_text) sample_parse [] (page_with_id ''b'')) = Inr ab_entries
   \<and> map fst ab_entries = ''a'' # [''b'']
   \<and> getIdFromUrl (page_with_id ''b'') = Some ''b''
   \<and> map fst (pending (init (net_serving ab_text) sample_parse resolve_host (page_with_id ''b''))) = [''b'']
   \<and> map fst (requests (init (net_serving ab_text) sample_parse resolve_host (page_with_id ''b'')))
        = [NAV_DATA_URL, ''https://x/b.html'']
   \<and> activeId (state (step (net_serving ab_text) resolve_host
        (init (net_serving ab_text) sample_parse resolve_host (page_with_id ''b'')) (FetchSettled 0)))
        = Some ''b''
   \<and> getIdFromUrl (page_with_id ''nope'') = Some ''nope''
   \<and> ''nope'' \<notin> fst ` set ab_entries \<and> ''nope'' \<notin> set Object_prototype_names
   \<and> map fst (pending (init (net_serving ab_text) sample_parse resolve_host (page_with_id ''nope''))) = [''a'']
   \<and> activeId (state (step (net_serving ab_text) resolve_host
        (init (net_serving ab_text) sample_parse resolve_host (page_with_id ''nope'')) (FetchSettled 0)))
        = Some ''a''
   \<and> getIdFromUrl (step (net_serving ab_text) resolve_host
        (init (net_serving ab_text) sample_parse resolve_host (page_with_id ''nope'')) (FetchSettled 0))
        = Some ''a''"
proof -
  let ?net = "net_serving ab_text"
  have h1: "''p1'' \<in> fst ` set (navData (state (page_of [p1_entry])))"
    by (simp add: sample_defs)
  have h2: "fst (loadContentById net_up resolve_host ''p1'' (page_of [p1_entry])) = None"
    by (simp add: controller_defs sample_defs Let_def)
  have lf: "fst (loadNavData ?net sample_parse [] (page_with_id v)) = Inr ab_entries" for v
    by (simp add: controller_defs sample_defs net_serving_def sample_parse_def Let_def)
  have lr: "map fst (requests (snd (loadNavData ?net sample_parse [] (page_with_id v))))
              = [NAV_DATA_URL]" for v
    by (simp add: controller_defs sample_defs net_serving_def sample_parse_def Let_def)
  have l: "loadNavData ?net sample_parse [] (page_with_id v)
             = (Inr ab_entries, snd (loadNavData ?net sample_parse [] (page_with_id v)))" for v
    using lf [of v] by (simp add: prod_eq_iff)
  have ks: "map fst ab_entries = ''a'' # [''b'']" by (simp add: ab_entries_def)
  have c: "navContainer (page_with_id v) \<noteq> None \<and> mainContent (page_with_id v) \<noteq> None
           \<and> pending (page_with_id v) = []" for v
    by (simp add: sample_defs)
  have g: "getIdFromUrl (page_with_id v) = Some v" for v
    by (simp add: getIdFromUrl_def sample_defs)
  have n: "''nope'' \<notin> fst ` set ab_entries \<and> ''nope'' \<notin> set Object_prototype_names"
    by (simp add: ab_entries_def Object_prototype_names_def)
  have kb: "''b'' \<noteq> [] \<and> ''b'' \<in> fst ` set ab_entries" by (simp add: ab_entries_def)
  have ma: "map_of ab_entries ''a'' = Some \<lparr>title = ''A'', uri = ''https://x/a.html''\<rparr>"
    and mb: "map_of ab_entries ''b'' = Some \<lparr>title = ''B'', uri = ''https://x/b.html''\<rparr>"
    by (simp_all add: ab_entries_def)
  have ra: "resolveUri resolve_host (Some (uri \<lparr>title = ''A'', uri = ''https://x/a.html''\<rparr>))
              (page_with_id v) = Inr ''https://x/a.html''"
    and rb: "resolveUri resolve_host (Some (uri \<lparr>title = ''B'', uri = ''https://x/b.html''\<rparr>))
              (page_with_id v) = Inr ''https://x/b.html''" for v
    by (simp_all add: resolveUri_def startsWith_def)
  note t0 = url_id_round_trip [of "''p1''" "page_of [p1_entry]" net_up resolve_host]
  have a: "getIdFromUrl (snd (loadContentById net_up resolve_host ''p1'' (page_of [p1_entry]))) = Some ''p1''"
    using t0 h1 h2 by blast
  note tb = url_id_round_trip [of "''p1''" "page_of [p1_entry]" ?net resolve_host sample_parse
              "page_with_id ''b''" ab_entries
              "snd (loadNavData ?net sample_parse [] (page_with_id ''b''))"
              "''a''" "[''b'']" "''b''" "\<lparr>title = ''B'', uri = ''https://x/b.html''\<rparr>"
              "''https://x/b.html''"]
  have b: "map fst (pending (init ?net sample_parse resolve_host (page_with_id ''b''))) = [''b'']
     \<and> map fst (requests (init ?net sample_parse resolve_host (page_with_id ''b'')))
        = [NAV_DATA_URL, ''https://x/b.html'']
     \<and> activeId (state (step ?net resolve_host
        (init ?net sample_parse resolve_host (page_with_id ''b'')) (FetchSettled 0))) = Some ''b''"
    using tb l [of "''b''"] ks c [of "''b''"] g [of "''b''"] kb mb rb [of "''b''"] lr [of "''b''"]
    by (simp del: step.simps)
  note tn = url_id_round_trip [of "''p1''" "page_of [p1_entry]" ?net resolve_host sample_parse
              "page_with_id ''nope''" ab_entries
              "snd (loadNavData ?net sample_parse [] (page_with_id ''nope''))"
              "''a''" "[''b'']" "''a''" "\<lparr>title = ''A'', uri = ''https://x/a.html''\<rparr>"
              "''https://x/a.html''"]
  have hn: "''a'' = ''a'' \<and> (getIdFromUrl (page_with_id ''nope'') = None
              \<or> getIdFromUrl (page_with_id ''nope'') = Some []
              \<or> (\<exists>k. getIdFromUrl (page_with_id ''nope'') = Some k \<and> k \<notin> fst ` set ab_entries
                      \<and> k \<notin> set Object_prototype_names))"
    using g [of "''nope''"] n by blast
  have d: "map fst (pending (init ?net sample_parse resolve_host (page_with_id ''nope''))) = [''a'']
     \<and> activeId (state (step ?net resolve_host
        (init ?net sample_parse resolve_host (page_with_id ''nope'')) (FetchSettled 0))) = Some ''a''
     \<and> getIdFromUrl (step ?net resolve_host
        (init ?net sample_parse resolve_host (page_with_id ''nope'')) (FetchSettled 0)) = Some ''a''"
  proof -
    from tn l [of "''nope''"] ks c [of "''nope''"] hn ma ra [of "''nope''"]
    have "map fst (pending (init ?net sample_parse resolve_host (page_with_id ''nope'')))
            = map fst (pending (page_with_id ''nope'')) @ [''a'']
        \<and> activeId (state (step ?net resolve_host
             (init ?net sample_parse resolve_host (page_with_id ''nope''))
             (FetchSettled (length (pending (page_with_id ''nope'')))))) = Some ''a''
        \<and> getIdFromUrl (step ?net resolve_host
             (init ?net sample_parse resolve_host (page_with_id ''nope''))
             (FetchSettled (length (pending (page_with_id ''nope''))))) = Some ''a''"
      by blast
    with c [of "''nope''"] show ?thesis by (simp del: step.simps)
  qed
  show ?thesis
    using h1 h2 a lf [of "''b''"] ks g [of "''b''"] g [of "''nope''"] b n d
    by (intro conjI) blast+
qed

end
